theory Spec2Isabelle
  imports Main
begin

section \<open>Announcements router: a shallow embedding\<close>

text \<open>
  The router \<^verbatim>\<open>src/backend/routers/announcements.py\<close> has five handlers over two
  MongoDB collections. Each handler becomes a function that takes the database and
  returns the response (an error or a value) together with the database it leaves
  behind. What the handlers read from outside is passed in: the clock value of
  \<^verbatim>\<open>datetime.utcnow()\<close>, the identifier the driver generates for an inserted
  document, and the interpreter's \<^verbatim>\<open>datetime.fromisoformat\<close>, whose accepted
  language differs between Python versions.

  The libraries the router calls (\<^verbatim>\<open>datetime\<close>, \<^verbatim>\<open>bson\<close>, the collection
  methods of \<^verbatim>\<open>pymongo\<close>) are modelled in the subsections below.
\<close>

subsection \<open>Date-times\<close>

text \<open>
  A \<^verbatim>\<open>datetime\<close> object: its seven fields and its UTC offset in microseconds,
  None for a naive date-time. \<open>new_datetime\<close> is the constructor with its range
  checks (ValueError is None).
\<close>

datatype datetime =
  Datetime (year: nat) (month: nat) (day: nat) (hour: nat) (minute: nat) (second: nat)
    (microsecond: nat) (utcoffset: "int option")

definition is_leap :: "nat \<Rightarrow> bool" where
  "is_leap y = (y mod 4 = 0 \<and> (y mod 100 \<noteq> 0 \<or> y mod 400 = 0))"

definition days_in_month :: "nat \<Rightarrow> nat \<Rightarrow> nat" where
  "days_in_month y m =
     (if m = 2 then (if is_leap y then 29 else 28)
      else if m = 4 \<or> m = 6 \<or> m = 9 \<or> m = 11 then 30 else 31)"

definition new_datetime :: "nat \<Rightarrow> nat \<Rightarrow> nat \<Rightarrow> nat \<Rightarrow> nat \<Rightarrow> nat \<Rightarrow> nat \<Rightarrow> datetime option" where
  "new_datetime y m d hh mm ss us =
     (if 1 \<le> y \<and> y \<le> 9999 \<and> 1 \<le> m \<and> m \<le> 12 \<and> 1 \<le> d \<and> d \<le> days_in_month y m
         \<and> hh < 24 \<and> mm < 60 \<and> ss < 60 \<and> us < 1000000
      then Some (Datetime y m d hh mm ss us None) else None)"

text \<open>
  The proleptic Gregorian ordinal of a date and its inverse, as \<^verbatim>\<open>_ymd2ord\<close> and
  \<^verbatim>\<open>_ord2ymd\<close> of the standard library compute them (day 1 is 0001-01-01).
  \<^verbatim>\<open>_ord2ymd\<close> derives the leap flag of the year from its cycle counts and
  asserts that it is \<^verbatim>\<open>_is_leap(year)\<close>; the flag is \<open>is_leap y\<close> here.
\<close>

definition days_before_year :: "nat \<Rightarrow> int" where
  "days_before_year y =
     (let p = int y - 1 in p * 365 + p div 4 - p div 100 + p div 400)"

definition days_before_month :: "nat \<Rightarrow> nat \<Rightarrow> int" where
  "days_before_month y m =
     int ([0, 31, 59, 90, 120, 151, 181, 212, 243, 273, 304, 334] ! ((m - 1) mod 12))
       + (if 2 < m \<and> is_leap y then 1 else 0)"

definition ymd2ord :: "nat \<Rightarrow> nat \<Rightarrow> nat \<Rightarrow> int" where
  "ymd2ord y m d = days_before_year y + days_before_month y m + int d"

definition ord2ymd :: "int \<Rightarrow> nat \<times> nat \<times> nat" where
  "ord2ymd ordinal =
     (let n0 = ordinal - 1;
          n400 = n0 div 146097; r400 = n0 mod 146097;
          n100 = r400 div 36524; r100 = r400 mod 36524;
          n4 = r100 div 1461; r4 = r100 mod 1461;
          n1 = r4 div 365; n = r4 mod 365;
          y = nat (n400 * 400 + 1 + n100 * 100 + n4 * 4 + n1)
      in if n1 = 4 \<or> n100 = 4 then (y - 1, 12, 31)
         else
           (let m = nat ((n + 50) div 32);
                preceding = days_before_month y m
            in if n < preceding
               then (y, m - 1,
                     nat (n - (preceding - int (days_in_month y (m - 1)))) + 1)
               else (y, m, nat (n - preceding) + 1)))"

text \<open>
  The microseconds from 1970-01-01T00:00:00 to the instant a date-time denotes, a
  naive one read as UTC, which is how the driver reads it.
\<close>

definition utc_micros :: "datetime \<Rightarrow> int" where
  "utc_micros t =
     (((ymd2ord (year t) (month t) (day t) - 719163) * 86400
        + int (hour t) * 3600 + int (minute t) * 60 + int (second t)) * 1000000
      + int (microsecond t))
     - (case utcoffset t of None \<Rightarrow> 0 | Some off \<Rightarrow> off)"

definition utc_millis :: "datetime \<Rightarrow> int" where
  "utc_millis t = utc_micros t div 1000"

subsection \<open>BSON dates\<close>

text \<open>
  The store keeps a date as the whole milliseconds since 1970-01-01T00:00:00 UTC.
  Encoding cuts the microseconds off. For an aware date-time the driver first
  subtracts the offset, which raises OverflowError when the result leaves the years
  1 to 9999. Decoding gives the naive UTC date-time of the millisecond.

  What a handler can raise: an \<^verbatim>\<open>HTTPException\<close> with its status code and detail,
  the OverflowError of the encoding, the store's refusal of a duplicate \<^verbatim>\<open>_id\<close>,
  and the failure of \<^verbatim>\<open>_serialize\<close> on the None that \<^verbatim>\<open>find_one\<close> returns
  when no document matches (line 157).
\<close>

datatype error =
  HTTPException nat string
  | OverflowError
  | DuplicateKeyError
  | AttributeError

definition datetime_to_millis :: "datetime \<Rightarrow> error + int" where
  "datetime_to_millis t =
     (if utcoffset t = None then Inr (utc_millis t)
      else (let ordinal = utc_micros t div 86400000000 + 719163
            in if 1 \<le> ordinal \<and> ordinal \<le> 3652059 then Inr (utc_millis t)
               else Inl OverflowError))"

definition millis_to_datetime :: "int \<Rightarrow> datetime" where
  "millis_to_datetime millis =
     (let seconds = millis div 1000;
          days = seconds div 86400; sod = seconds mod 86400
      in case ord2ymd (days + 719163) of
           (y, m, d) \<Rightarrow>
             Datetime y m d (nat (sod div 3600)) (nat (sod mod 3600 div 60)) (nat (sod mod 60))
               (nat (millis mod 1000) * 1000) None)"

subsection \<open>\<^verbatim>\<open>datetime.isoformat\<close> and \<^verbatim>\<open>datetime.fromisoformat\<close>\<close>

text \<open>
  \<^verbatim>\<open>isoformat()\<close>: \<^verbatim>\<open>YYYY-MM-DDTHH:MM:SS\<close>, then \<^verbatim>\<open>.ffffff\<close> when the
  microsecond is not zero, then for an aware date-time the offset as
  \<^verbatim>\<open>+HH:MM[:SS[.ffffff]]\<close>. Each field is zero-padded to its width.
\<close>

definition digit_char :: "nat \<Rightarrow> char" where
  "digit_char n = ''0123456789'' ! (n mod 10)"

definition zfill2 :: "nat \<Rightarrow> string" where
  "zfill2 n = [digit_char (n div 10), digit_char n]"

definition zfill4 :: "nat \<Rightarrow> string" where
  "zfill4 n = zfill2 (n div 100) @ zfill2 n"

definition zfill6 :: "nat \<Rightarrow> string" where
  "zfill6 n = zfill2 (n div 10000) @ zfill4 n"

definition format_offset :: "int \<Rightarrow> string" where
  "format_offset off =
     (let a = nat \<bar>off\<bar>;
          ss = a mod 60000000 div 1000000; us = a mod 1000000
      in (if off < 0 then ''-'' else ''+'')
           @ zfill2 (a div 3600000000) @ '':'' @ zfill2 (a mod 3600000000 div 60000000)
           @ (if ss \<noteq> 0 \<or> us \<noteq> 0 then '':'' @ zfill2 ss else [])
           @ (if us \<noteq> 0 then ''.'' @ zfill6 us else []))"

definition isoformat :: "datetime \<Rightarrow> string" where
  "isoformat t =
     zfill4 (year t) @ ''-'' @ zfill2 (month t) @ ''-'' @ zfill2 (day t) @ ''T''
       @ zfill2 (hour t) @ '':'' @ zfill2 (minute t) @ '':'' @ zfill2 (second t)
       @ (if microsecond t = 0 then [] else ''.'' @ zfill6 (microsecond t))
       @ (case utcoffset t of None \<Rightarrow> [] | Some off \<Rightarrow> format_offset off)"

text \<open>
  \<^verbatim>\<open>datetime.fromisoformat\<close> is a parameter of the handlers that parse dates: a
  function from strings to date-times, None where it raises. The language it accepts
  grew with the Python versions (UTC offsets from 3.7, further ISO-8601 forms from
  3.11). What every version accepts, with the same result, are the naive forms
  \<^verbatim>\<open>YYYY-MM-DD[*HH[:MM[:SS[.fff[fff]]]]]\<close>, where \<^verbatim>\<open>*\<close> is any one character;
  \<open>fromisoformat_naive\<close> parses exactly these, and \<open>parses_naive_iso\<close> says of a
  parser that it agrees with \<open>fromisoformat_naive\<close> wherever that succeeds.
\<close>

definition digit_val :: "char \<Rightarrow> nat option" where
  "digit_val c =
     (let n = (of_char c :: nat) in if 48 \<le> n \<and> n \<le> 57 then Some (n - 48) else None)"

fun digits_val :: "nat \<Rightarrow> string \<Rightarrow> nat option" where
  "digits_val acc [] = Some acc"
| "digits_val acc (c # cs) =
     (case digit_val c of None \<Rightarrow> None | Some d \<Rightarrow> digits_val (10 * acc + d) cs)"

definition parse_digits :: "nat \<Rightarrow> string \<Rightarrow> (nat \<times> string) option" where
  "parse_digits n s =
     (if length s < n then None
      else (case digits_val 0 (take n s) of None \<Rightarrow> None | Some v \<Rightarrow> Some (v, drop n s)))"

definition parse_isoformat_date :: "string \<Rightarrow> (nat \<times> nat \<times> nat) option" where
  "parse_isoformat_date s =
     (if length s \<noteq> 10 then None
      else (case parse_digits 4 s of None \<Rightarrow> None
        | Some (y, r1) \<Rightarrow>
            if take 1 r1 \<noteq> ''-'' then None
            else (case parse_digits 2 (drop 1 r1) of None \<Rightarrow> None
              | Some (m, r2) \<Rightarrow>
                  if take 1 r2 \<noteq> ''-'' then None
                  else (case parse_digits 2 (drop 1 r2) of None \<Rightarrow> None
                    | Some (d, r3) \<Rightarrow> Some (y, m, d)))))"

definition parse_fraction :: "string \<Rightarrow> nat option" where
  "parse_fraction s =
     (if length s = 6 then digits_val 0 s
      else if length s = 3 then map_option (\<lambda>v. v * 1000) (digits_val 0 s)
      else None)"

definition parse_hh_mm_ss_ff :: "string \<Rightarrow> (nat \<times> nat \<times> nat \<times> nat) option" where
  "parse_hh_mm_ss_ff s =
     (case parse_digits 2 s of None \<Rightarrow> None
      | Some (hh, r1) \<Rightarrow>
          if r1 = [] then Some (hh, 0, 0, 0)
          else if take 1 r1 \<noteq> '':'' then None
          else (case parse_digits 2 (drop 1 r1) of None \<Rightarrow> None
            | Some (mm, r2) \<Rightarrow>
                if r2 = [] then Some (hh, mm, 0, 0)
                else if take 1 r2 \<noteq> '':'' then None
                else (case parse_digits 2 (drop 1 r2) of None \<Rightarrow> None
                  | Some (ss, r3) \<Rightarrow>
                      if r3 = [] then Some (hh, mm, ss, 0)
                      else if take 1 r3 \<noteq> ''.'' then None
                      else map_option (\<lambda>us. (hh, mm, ss, us)) (parse_fraction (drop 1 r3)))))"

definition fromisoformat_naive :: "string \<Rightarrow> datetime option" where
  "fromisoformat_naive date_string =
     (case parse_isoformat_date (take 10 date_string) of None \<Rightarrow> None
      | Some (y, m, d) \<Rightarrow>
          if length date_string = 10 then new_datetime y m d 0 0 0 0
          else (case parse_hh_mm_ss_ff (drop 11 date_string) of None \<Rightarrow> None
            | Some (hh, mm, ss, us) \<Rightarrow> new_datetime y m d hh mm ss us))"

definition parses_naive_iso :: "(string \<Rightarrow> datetime option) \<Rightarrow> bool" where
  "parses_naive_iso fromisoformat =
     (\<forall>s t. fromisoformat_naive s = Some t \<longrightarrow> fromisoformat s = Some t)"

subsection \<open>\<^verbatim>\<open>bson.ObjectId\<close>\<close>

text \<open>
  \<^verbatim>\<open>ObjectId(s)\<close> on a string requires \<open>s\<close> to have 24 characters and takes
  \<^verbatim>\<open>bytes.fromhex(s)\<close> as the identifier; it raises InvalidId (None) when the
  length differs or \<^verbatim>\<open>fromhex\<close> raises. \<^verbatim>\<open>bytes.fromhex\<close> reads two
  hexadecimal digits per byte and skips ASCII whitespace before each pair, so an
  accepted string with whitespace gives fewer than twelve bytes. An identifier is held
  as the lower-case hexadecimal digits of its bytes, which is what \<^verbatim>\<open>str(oid)\<close>
  returns.
\<close>

datatype objectid = Oid (str: string)

definition is_space :: "char \<Rightarrow> bool" where
  "is_space c = (of_char c \<in> {9, 10, 11, 12, 13, 32 :: nat})"

definition is_hex :: "char \<Rightarrow> bool" where
  "is_hex c = (c \<in> set ''0123456789abcdefABCDEF'')"

definition to_lower :: "char \<Rightarrow> char" where
  "to_lower c =
     (if c = CHR ''A'' then CHR ''a'' else if c = CHR ''B'' then CHR ''b''
      else if c = CHR ''C'' then CHR ''c'' else if c = CHR ''D'' then CHR ''d''
      else if c = CHR ''E'' then CHR ''e'' else if c = CHR ''F'' then CHR ''f'' else c)"

fun fromhex :: "string \<Rightarrow> string option" where
  "fromhex [] = Some []"
| "fromhex [c] = (if is_space c then Some [] else None)"
| "fromhex (c # d # cs) =
     (if is_space c then fromhex (d # cs)
      else if is_hex c \<and> is_hex d
        then map_option (\<lambda>r. to_lower c # to_lower d # r) (fromhex cs)
        else None)"

definition ObjectId :: "string \<Rightarrow> objectid option" where
  "ObjectId s = (if length s = 24 then map_option Oid (fromhex s) else None)"

subsection \<open>Documents and collections\<close>

text \<open>
  An announcement document has the keys that \<^verbatim>\<open>create_announcement\<close> writes
  (lines 96-102) and the \<^verbatim>\<open>_id\<close> of the store; \<^verbatim>\<open>start_date\<close> holds a date or
  null. The dates of a document in memory are \<^verbatim>\<open>datetime\<close> objects, those of a
  stored document are BSON dates: \<open>to_bson\<close> encodes a document for the store and
  \<open>from_bson\<close> decodes what the store returns. A teacher document is read for its
  existence only and is reduced to its \<^verbatim>\<open>_id\<close>, the user name. A collection is the
  list of its documents in natural order.
\<close>

record 'd announcement =
  doc_id :: objectid
  message :: string
  start_date :: "'d option"
  end_date :: 'd
  created_by :: string
  created_at :: 'd

type_synonym teacher = string

record db =
  announcements_collection :: "int announcement list"
  teachers_collection :: "teacher list"

definition to_bson :: "datetime announcement \<Rightarrow> error + int announcement" where
  "to_bson doc =
     (case (case start_date doc of
              None \<Rightarrow> Inr None
            | Some t \<Rightarrow> (case datetime_to_millis t of Inl e \<Rightarrow> Inl e | Inr ms \<Rightarrow> Inr (Some ms))) of
        Inl e \<Rightarrow> Inl e
      | Inr start_ms \<Rightarrow>
          (case datetime_to_millis (end_date doc) of
             Inl e \<Rightarrow> Inl e
           | Inr end_ms \<Rightarrow>
               (case datetime_to_millis (created_at doc) of
                  Inl e \<Rightarrow> Inl e
                | Inr created_ms \<Rightarrow>
                    Inr \<lparr>doc_id = doc_id doc, message = message doc, start_date = start_ms,
                         end_date = end_ms, created_by = created_by doc,
                         created_at = created_ms\<rparr>)))"

definition from_bson :: "int announcement \<Rightarrow> datetime announcement" where
  "from_bson b =
     \<lparr>doc_id = doc_id b, message = message b,
      start_date = map_option millis_to_datetime (start_date b),
      end_date = millis_to_datetime (end_date b), created_by = created_by b,
      created_at = millis_to_datetime (created_at b)\<rparr>"

text \<open>
  Values and filters of the query language, as far as the router uses them: equality
  with a value, the two date comparisons and \<^verbatim>\<open>$exists\<close>; a filter with several
  keys is the conjunction of its parts. A filter reaches the store encoded, so its
  dates are BSON dates. A comparison with a date matches date values only, and equality
  with null matches a null field as well as a missing one.
\<close>

datatype bson = BNull | BString string | BDate int | BObjectId objectid

datatype cond = Eq bson | Gte int | Lte int | Exists bool

datatype query = Field string cond | Or "query list" | And "query list"

definition doc_get :: "int announcement \<Rightarrow> string \<Rightarrow> bson option" where
  "doc_get d k =
     (if k = ''_id'' then Some (BObjectId (doc_id d))
      else if k = ''message'' then Some (BString (message d))
      else if k = ''start_date'' then
        Some (case start_date d of None \<Rightarrow> BNull | Some t \<Rightarrow> BDate t)
      else if k = ''end_date'' then Some (BDate (end_date d))
      else if k = ''created_by'' then Some (BString (created_by d))
      else if k = ''created_at'' then Some (BDate (created_at d))
      else None)"

fun cond_holds :: "cond \<Rightarrow> bson option \<Rightarrow> bool" where
  "cond_holds (Eq x) v = (v = Some x \<or> (x = BNull \<and> v = None))"
| "cond_holds (Gte t) v = (case v of Some (BDate u) \<Rightarrow> t \<le> u | _ \<Rightarrow> False)"
| "cond_holds (Lte t) v = (case v of Some (BDate u) \<Rightarrow> u \<le> t | _ \<Rightarrow> False)"
| "cond_holds (Exists b) v = ((v \<noteq> None) = b)"

fun matches :: "query \<Rightarrow> int announcement \<Rightarrow> bool" where
  "matches (Field k c) d = cond_holds c (doc_get d k)"
| "matches (Or qs) d = list_ex (\<lambda>q. matches q d) qs"
| "matches (And qs) d = list_all (\<lambda>q. matches q d) qs"

text \<open>
  The collection methods. \<^verbatim>\<open>find(q).sort([("end_date", 1)])\<close> is the matching
  documents in ascending order of \<^verbatim>\<open>end_date\<close> (documents with equal keys stay in
  natural order here; the store promises no order among them). \<^verbatim>\<open>insert_one\<close>
  encodes the document and refuses one whose \<^verbatim>\<open>_id\<close> is taken, as the unique index
  on \<^verbatim>\<open>_id\<close> does. \<^verbatim>\<open>update_one\<close> and \<^verbatim>\<open>delete_one\<close> act on the first
  matching document and return \<^verbatim>\<open>matched_count\<close> and \<^verbatim>\<open>deleted_count\<close> with
  the new collection; the \<^verbatim>\<open>$set\<close> document of \<^verbatim>\<open>update_one\<close> is encoded like
  an inserted one.
\<close>

definition find_sort_end_date ::
  "query \<Rightarrow> int announcement list \<Rightarrow> int announcement list" where
  "find_sort_end_date q coll = sort_key end_date (filter (matches q) coll)"

definition find_one :: "query \<Rightarrow> int announcement list \<Rightarrow> int announcement option" where
  "find_one q coll = find (matches q) coll"

definition teachers_find_one :: "string \<Rightarrow> teacher list \<Rightarrow> teacher option" where
  "teachers_find_one username ts = find (\<lambda>t. t = username) ts"

definition insert_one ::
  "datetime announcement \<Rightarrow> int announcement list \<Rightarrow> error + int announcement list" where
  "insert_one doc coll =
     (case to_bson doc of
        Inl e \<Rightarrow> Inl e
      | Inr b \<Rightarrow>
          if doc_id b \<in> set (map doc_id coll) then Inl DuplicateKeyError
          else Inr (coll @ [b]))"

record 'd update_doc =
  set_message :: "string option"
  set_end_date :: "'d option"
  set_start_date :: "'d option option"

definition empty_update :: "'d update_doc" where
  "empty_update = \<lparr>set_message = None, set_end_date = None, set_start_date = None\<rparr>"

definition encode_update :: "datetime update_doc \<Rightarrow> error + int update_doc" where
  "encode_update u =
     (case (case set_end_date u of
              None \<Rightarrow> Inr None
            | Some t \<Rightarrow> (case datetime_to_millis t of Inl e \<Rightarrow> Inl e | Inr ms \<Rightarrow> Inr (Some ms))) of
        Inl e \<Rightarrow> Inl e
      | Inr end_ms \<Rightarrow>
          (case (case set_start_date u of
                   None \<Rightarrow> Inr None
                 | Some None \<Rightarrow> Inr (Some None)
                 | Some (Some t) \<Rightarrow>
                     (case datetime_to_millis t of
                        Inl e \<Rightarrow> Inl e
                      | Inr ms \<Rightarrow> Inr (Some (Some ms)))) of
             Inl e \<Rightarrow> Inl e
           | Inr start_ms \<Rightarrow>
               Inr \<lparr>set_message = set_message u, set_end_date = end_ms,
                    set_start_date = start_ms\<rparr>))"

definition apply_set :: "int update_doc \<Rightarrow> int announcement \<Rightarrow> int announcement" where
  "apply_set u d =
     (let d1 = (case set_message u of None \<Rightarrow> d | Some m \<Rightarrow> d\<lparr>message := m\<rparr>);
          d2 = (case set_end_date u of None \<Rightarrow> d1 | Some t \<Rightarrow> d1\<lparr>end_date := t\<rparr>)
      in (case set_start_date u of None \<Rightarrow> d2 | Some v \<Rightarrow> d2\<lparr>start_date := v\<rparr>))"

fun update_one ::
  "query \<Rightarrow> int update_doc \<Rightarrow> int announcement list \<Rightarrow> nat \<times> int announcement list" where
  "update_one q u [] = (0, [])"
| "update_one q u (d # ds) =
     (if matches q d then (1, apply_set u d # ds)
      else (case update_one q u ds of (n, ds') \<Rightarrow> (n, d # ds')))"

fun delete_one :: "query \<Rightarrow> int announcement list \<Rightarrow> nat \<times> int announcement list" where
  "delete_one q [] = (0, [])"
| "delete_one q (d # ds) =
     (if matches q d then (1, ds)
      else (case delete_one q ds of (n, ds') \<Rightarrow> (n, d # ds')))"

subsection \<open>The handlers\<close>

text \<open>The response body of an announcement (\<^verbatim>\<open>_serialize\<close>, lines 20-28).\<close>

record view =
  v_id :: string
  v_message :: string
  v_start_date :: "string option"
  v_end_date :: "string option"
  v_created_by :: string
  v_created_at :: "string option"

definition serialize :: "datetime announcement \<Rightarrow> view" where
  "serialize doc =
     \<lparr>v_id = str (doc_id doc),
      v_message = message doc,
      v_start_date = (case start_date doc of Some t \<Rightarrow> Some (isoformat t) | None \<Rightarrow> None),
      v_end_date = Some (isoformat (end_date doc)),
      v_created_by = created_by doc,
      v_created_at = Some (isoformat (created_at doc))\<rparr>"

text \<open>
  The filter of \<^verbatim>\<open>get_active_announcements\<close> (lines 35-42), as the store receives
  it: \<open>now\<close>, the naive value of \<^verbatim>\<open>utcnow()\<close>, is encoded to its millisecond.
\<close>

definition active_query :: "datetime \<Rightarrow> query" where
  "active_query now =
     And [Field ''end_date'' (Gte (utc_millis now)),
          Or [Field ''start_date'' (Eq BNull),
              Field ''start_date'' (Lte (utc_millis now)),
              Field ''start_date'' (Exists False)]]"

definition get_active_announcements :: "db \<Rightarrow> datetime \<Rightarrow> view list" where
  "get_active_announcements s now =
     map (\<lambda>doc. serialize (from_bson doc))
       (find_sort_end_date (active_query now) (announcements_collection s))"

definition get_all_announcements :: "db \<Rightarrow> string \<Rightarrow> error + view list" where
  "get_all_announcements s teacher_username =
     (case teachers_find_one teacher_username (teachers_collection s) of
        None \<Rightarrow> Inl (HTTPException 401 ''Invalid teacher credentials'')
      | Some teacher \<Rightarrow>
          Inr (map (\<lambda>doc. serialize (from_bson doc))
                 (find_sort_end_date (And []) (announcements_collection s))))"

text \<open>
  The date arguments go through the same two attempts everywhere (lines 78-84, 88-94,
  131-137 and 142-148): \<^verbatim>\<open>fromisoformat\<close> on the string, then on the string
  followed by \<^verbatim>\<open>T00:00:00\<close>; None when both raise.
\<close>

definition parse_date_arg :: "(string \<Rightarrow> datetime option) \<Rightarrow> string \<Rightarrow> datetime option" where
  "parse_date_arg fromisoformat s =
     (case fromisoformat s of Some t \<Rightarrow> Some t
      | None \<Rightarrow> fromisoformat (s @ ''T00:00:00''))"

definition create_announcement ::
  "(string \<Rightarrow> datetime option) \<Rightarrow> db \<Rightarrow> datetime \<Rightarrow> objectid \<Rightarrow> string \<Rightarrow> string
     \<Rightarrow> string option \<Rightarrow> string \<Rightarrow> (error + view) \<times> db" where
  "create_announcement fromisoformat s now new_id msg end_date_arg start_date_arg
       teacher_username =
     (case teachers_find_one teacher_username (teachers_collection s) of
        None \<Rightarrow> (Inl (HTTPException 401 ''Invalid teacher credentials''), s)
      | Some teacher \<Rightarrow>
          (case parse_date_arg fromisoformat end_date_arg of
             None \<Rightarrow> (Inl (HTTPException 400 ''Invalid end_date format''), s)
           | Some end_dt \<Rightarrow>
               (case (case start_date_arg of
                        None \<Rightarrow> Inr None
                      | Some sd \<Rightarrow>
                          if sd = [] then Inr None
                          else (case parse_date_arg fromisoformat sd of
                                  None \<Rightarrow> Inl (HTTPException 400 ''Invalid start_date format'')
                                | Some t \<Rightarrow> Inr (Some t))) of
                  Inl e \<Rightarrow> (Inl e, s)
                | Inr start_dt \<Rightarrow>
                    (let doc = \<lparr>doc_id = new_id, message = msg, start_date = start_dt,
                                end_date = end_dt, created_by = teacher_username,
                                created_at = now\<rparr>
                     in (case insert_one doc (announcements_collection s) of
                           Inl e \<Rightarrow> (Inl e, s)
                         | Inr coll \<Rightarrow>
                             (Inr (serialize doc), s\<lparr>announcements_collection := coll\<rparr>))))))"

text \<open>
  \<^verbatim>\<open>update_announcement\<close> builds the dictionary \<^verbatim>\<open>update\<close> key by key (lines
  127-148); the three steps are the functions below, each taking the dictionary built
  so far.
\<close>

definition update_message :: "string option \<Rightarrow> datetime update_doc \<Rightarrow> datetime update_doc" where
  "update_message message_arg u =
     (case message_arg of None \<Rightarrow> u | Some m \<Rightarrow> u\<lparr>set_message := Some m\<rparr>)"

definition update_end_date ::
  "(string \<Rightarrow> datetime option) \<Rightarrow> string option \<Rightarrow> datetime update_doc
     \<Rightarrow> error + datetime update_doc" where
  "update_end_date fromisoformat end_date_arg u =
     (case end_date_arg of
        None \<Rightarrow> Inr u
      | Some ed \<Rightarrow>
          (case parse_date_arg fromisoformat ed of
             None \<Rightarrow> Inl (HTTPException 400 ''Invalid end_date format'')
           | Some t \<Rightarrow> Inr (u\<lparr>set_end_date := Some t\<rparr>)))"

definition update_start_date ::
  "(string \<Rightarrow> datetime option) \<Rightarrow> string option \<Rightarrow> datetime update_doc
     \<Rightarrow> error + datetime update_doc" where
  "update_start_date fromisoformat start_date_arg u =
     (case start_date_arg of
        None \<Rightarrow> Inr u
      | Some sd \<Rightarrow>
          if sd = [] then Inr (u\<lparr>set_start_date := Some None\<rparr>)
          else (case parse_date_arg fromisoformat sd of
                  None \<Rightarrow> Inl (HTTPException 400 ''Invalid start_date format'')
                | Some t \<Rightarrow> Inr (u\<lparr>set_start_date := Some (Some t)\<rparr>)))"

definition update_announcement ::
  "(string \<Rightarrow> datetime option) \<Rightarrow> db \<Rightarrow> string \<Rightarrow> string option \<Rightarrow> string option
     \<Rightarrow> string option \<Rightarrow> string \<Rightarrow> (error + view) \<times> db" where
  "update_announcement fromisoformat s announcement_id message_arg end_date_arg
       start_date_arg teacher_username =
     (case teachers_find_one teacher_username (teachers_collection s) of
        None \<Rightarrow> (Inl (HTTPException 401 ''Invalid teacher credentials''), s)
      | Some teacher \<Rightarrow>
          (case ObjectId announcement_id of
             None \<Rightarrow> (Inl (HTTPException 400 ''Invalid announcement id''), s)
           | Some oid \<Rightarrow>
               (case update_end_date fromisoformat end_date_arg
                       (update_message message_arg empty_update) of
                  Inl e \<Rightarrow> (Inl e, s)
                | Inr u1 \<Rightarrow>
                    (case update_start_date fromisoformat start_date_arg u1 of
                       Inl e \<Rightarrow> (Inl e, s)
                     | Inr u \<Rightarrow>
                         if u = empty_update
                         then (Inl (HTTPException 400 ''No fields to update''), s)
                         else (case encode_update u of
                                 Inl e \<Rightarrow> (Inl e, s)
                               | Inr set_doc \<Rightarrow>
                                   (case update_one (Field ''_id'' (Eq (BObjectId oid))) set_doc
                                           (announcements_collection s) of
                                      (matched_count, coll) \<Rightarrow>
                                        (let s' = s\<lparr>announcements_collection := coll\<rparr>
                                         in if matched_count = 0
                                            then (Inl (HTTPException 404
                                                         ''Announcement not found''), s')
                                            else (case find_one
                                                         (Field ''_id'' (Eq (BObjectId oid)))
                                                         coll of
                                                    None \<Rightarrow> (Inl AttributeError, s')
                                                  | Some doc \<Rightarrow>
                                                      (Inr (serialize (from_bson doc)),
                                                       s')))))))))"

definition delete_announcement :: "db \<Rightarrow> string \<Rightarrow> string \<Rightarrow> (error + string) \<times> db" where
  "delete_announcement s announcement_id teacher_username =
     (case teachers_find_one teacher_username (teachers_collection s) of
        None \<Rightarrow> (Inl (HTTPException 401 ''Invalid teacher credentials''), s)
      | Some teacher \<Rightarrow>
          (case ObjectId announcement_id of
             None \<Rightarrow> (Inl (HTTPException 400 ''Invalid announcement id''), s)
           | Some oid \<Rightarrow>
               (case delete_one (Field ''_id'' (Eq (BObjectId oid)))
                       (announcements_collection s) of
                  (deleted_count, coll) \<Rightarrow>
                    (let s' = s\<lparr>announcements_collection := coll\<rparr>
                     in if deleted_count = 0
                        then (Inl (HTTPException 404 ''Announcement not found''), s')
                        else (Inr ''Announcement deleted'', s')))))"

subsection \<open>Example data\<close>

definition ann_open :: "int announcement" where
  "ann_open =
     \<lparr>doc_id = Oid ''64b7f0000000000000000001'', message = ''Science fair on Friday'',
      start_date = None, end_date = 4102358400000,
      created_by = ''mrodriguez'', created_at = 1736501400000\<rparr>"

definition ann_past :: "int announcement" where
  "ann_past =
     \<lparr>doc_id = Oid ''64b7f0000000000000000002'', message = ''Spring break schedule'',
      start_date = Some 1577836800000, end_date = 1590969600000,
      created_by = ''mchen'', created_at = 1576828800000\<rparr>"

definition example_db :: db where
  "example_db =
     \<lparr>announcements_collection = [ann_open, ann_past],
      teachers_collection = [''mrodriguez'', ''mchen'']\<rparr>"

definition example_now :: datetime where
  "example_now = Datetime 2025 3 1 12 0 0 0 None"

definition now_edge :: datetime where
  "now_edge = Datetime 2025 3 1 12 0 0 500 None"

definition now_micro :: datetime where
  "now_micro = Datetime 2025 3 1 12 0 0 123456 None"

definition doc_new :: "datetime announcement" where
  "doc_new =
     \<lparr>doc_id = Oid ''64b7f0000000000000000003'', message = ''Exam week starts Monday'',
      start_date = None, end_date = Datetime 2099 12 31 0 0 0 0 None,
      created_by = ''mchen'', created_at = example_now\<rparr>"

definition ann_new :: "int announcement" where
  "ann_new =
     \<lparr>doc_id = Oid ''64b7f0000000000000000003'', message = ''Exam week starts Monday'',
      start_date = None, end_date = 4102358400000,
      created_by = ''mchen'', created_at = 1740830400000\<rparr>"

definition doc_new_time :: "datetime announcement" where
  "doc_new_time =
     \<lparr>doc_id = Oid ''64b7f0000000000000000003'', message = ''Exam week starts Monday'',
      start_date = None, end_date = Datetime 2099 12 31 10 0 0 0 None,
      created_by = ''mchen'', created_at = example_now\<rparr>"

definition ann_new_time :: "int announcement" where
  "ann_new_time =
     \<lparr>doc_id = Oid ''64b7f0000000000000000003'', message = ''Exam week starts Monday'',
      start_date = None, end_date = 4102394400000,
      created_by = ''mchen'', created_at = 1740830400000\<rparr>"

definition doc_micro :: "datetime announcement" where
  "doc_micro =
     \<lparr>doc_id = Oid ''64b7f0000000000000000003'', message = ''Exam week starts Monday'',
      start_date = None, end_date = Datetime 2099 12 31 0 0 0 0 None,
      created_by = ''mchen'', created_at = now_micro\<rparr>"

definition ann_micro :: "int announcement" where
  "ann_micro =
     \<lparr>doc_id = Oid ''64b7f0000000000000000003'', message = ''Exam week starts Monday'',
      start_date = None, end_date = 4102358400000,
      created_by = ''mchen'', created_at = 1740830400123\<rparr>"

definition ann_edge :: "int announcement" where
  "ann_edge =
     \<lparr>doc_id = Oid ''64b7f0000000000000000004'', message = ''Assembly at noon'',
      start_date = None, end_date = 1740830400000,
      created_by = ''mchen'', created_at = 1736501400000\<rparr>"

definition edge_db :: db where
  "edge_db = \<lparr>announcements_collection = [ann_edge], teachers_collection = [''mchen'']\<rparr>"

section \<open>Properties\<close>

subsection \<open>Dates\<close>

lemmas calendar_defs =
  utc_millis_def utc_micros_def ymd2ord_def days_before_year_def days_before_month_def
  is_leap_def Let_def

lemmas decode_defs =
  millis_to_datetime_def ord2ymd_def days_before_month_def days_in_month_def is_leap_def Let_def

lemmas isoformat_defs =
  isoformat_def zfill2_def zfill4_def zfill6_def digit_char_def

lemma floor_ms_le: "(a div 1000 \<le> (b::int)) = (a < 1000 * b + 1000)"
  by linarith

lemma le_floor_ms: "((b::int) \<le> a div 1000) = (1000 * b \<le> a)"
  by linarith

lemma datetime_to_millis_naive:
  "utcoffset t = None \<Longrightarrow> datetime_to_millis t = Inr (utc_millis t)"
  by (simp add: datetime_to_millis_def)

lemma datetime_to_millis_Inr:
  "datetime_to_millis t = Inr ms \<Longrightarrow> ms = utc_millis t"
  by (simp add: datetime_to_millis_def Let_def split: if_splits)

lemma datetime_to_millis_examples:
  "datetime_to_millis (Datetime 2099 12 31 10 0 0 0 (Some 7200000000)) = Inr 4102387200000"
  "datetime_to_millis (Datetime 1 1 1 0 0 0 0 (Some 18000000000)) = Inl OverflowError"
  by (simp_all add: datetime_to_millis_def calendar_defs)

lemma utc_millis_examples:
  "utc_millis example_now = 1740830400000"
  "utc_millis now_edge = 1740830400000"
  "utc_micros now_edge = 1740830400000500"
  "utc_millis now_micro = 1740830400123"
  "utc_millis (Datetime 2099 12 31 0 0 0 0 None) = 4102358400000"
  "utc_millis (Datetime 2099 12 31 10 0 0 0 None) = 4102394400000"
  by (simp_all add: example_now_def now_edge_def now_micro_def calendar_defs)

lemma millis_to_datetime_examples:
  "millis_to_datetime 4102358400000 = Datetime 2099 12 31 0 0 0 0 None"
  "millis_to_datetime 4102394400000 = Datetime 2099 12 31 10 0 0 0 None"
  "millis_to_datetime 1740830400123 = Datetime 2025 3 1 12 0 0 123000 None"
  by (simp_all add: decode_defs)

lemma new_datetime_Some:
  "new_datetime y m d hh mm ss us = Some t \<Longrightarrow> t = Datetime y m d hh mm ss us None"
  by (simp add: new_datetime_def split: if_splits)

lemma fromisoformat_naive_date_only:
  "fromisoformat_naive ''2099-12-31'' = Some (Datetime 2099 12 31 0 0 0 0 None)"
  by (simp add: fromisoformat_naive_def parse_isoformat_date_def parse_digits_def digit_val_def
      new_datetime_def days_in_month_def)

lemma fromisoformat_naive_date_time:
  "fromisoformat_naive ''2099-12-31T10:00:00'' = Some (Datetime 2099 12 31 10 0 0 0 None)"
  by (simp add: fromisoformat_naive_def parse_isoformat_date_def parse_digits_def digit_val_def
      new_datetime_def days_in_month_def parse_hh_mm_ss_ff_def)

lemma fromisoformat_naive_bare_date:
  assumes "parse_isoformat_date e = Some (y, m, d)"
  shows "fromisoformat_naive e = new_datetime y m d 0 0 0 0"
proof -
  from assms have "length e = 10"
    by (simp add: parse_isoformat_date_def split: if_splits)
  with assms show ?thesis by (simp add: fromisoformat_naive_def)
qed

lemma parses_naive_iso_self: "parses_naive_iso fromisoformat_naive"
  by (simp add: parses_naive_iso_def)

lemma parses_naive_isoD:
  "parses_naive_iso p \<Longrightarrow> fromisoformat_naive s = Some t \<Longrightarrow> p s = Some t"
  by (simp add: parses_naive_iso_def)

lemma parse_date_arg_None:
  "(parse_date_arg p e = None) = (p e = None \<and> p (e @ ''T00:00:00'') = None)"
  by (simp add: parse_date_arg_def split: option.splits)

lemma parse_date_arg_naive:
  "parses_naive_iso p \<Longrightarrow> fromisoformat_naive s = Some t \<Longrightarrow> parse_date_arg p s = Some t"
  by (simp add: parse_date_arg_def parses_naive_isoD)

lemma ObjectId_examples:
  "ObjectId ''64b7f0000000000000000002'' = Some (Oid ''64b7f0000000000000000002'')"
  "ObjectId ''64b7f00000000000000000ff'' = Some (Oid ''64b7f00000000000000000ff'')"
  "ObjectId ''64b7f000000000000000 01 '' = Some (Oid ''64b7f00000000000000001'')"
  "ObjectId ''not-an-id'' = None"
  by (simp_all add: ObjectId_def is_hex_def is_space_def to_lower_def)

subsection \<open>The store\<close>

lemma matches_active_query:
  "matches (active_query now) d =
     (utc_millis now \<le> end_date d
        \<and> (case start_date d of None \<Rightarrow> True | Some t \<Rightarrow> t \<le> utc_millis now))"
  by (simp add: active_query_def doc_get_def split: option.splits)

lemma matches_id_query:
  "matches (Field ''_id'' (Eq (BObjectId oid))) d = (doc_id d = oid)"
  by (auto simp add: doc_get_def)

lemma set_find_sort_end_date:
  "set (find_sort_end_date q coll) = {d \<in> set coll. matches q d}"
  by (simp add: find_sort_end_date_def)

lemma sorted_find_sort_end_date:
  "sorted (map end_date (find_sort_end_date q coll))"
  by (simp add: find_sort_end_date_def)

lemma teachers_find_one_None:
  "u \<notin> set ts \<Longrightarrow> teachers_find_one u ts = None"
  by (simp add: teachers_find_one_def find_None_iff)

lemma teachers_find_one_Some:
  "u \<in> set ts \<Longrightarrow> teachers_find_one u ts = Some u"
  by (induction ts) (auto simp add: teachers_find_one_def)

lemma str_inject: "str a = str b \<Longrightarrow> a = b"
  by (cases a, cases b) simp

lemma serialize_doc_id:
  "serialize (from_bson a) = serialize (from_bson b) \<Longrightarrow> doc_id a = doc_id b"
  by (simp add: serialize_def from_bson_def str_inject)

lemma distinct_ids_eq:
  "distinct (map doc_id coll) \<Longrightarrow> a \<in> set coll \<Longrightarrow> b \<in> set coll \<Longrightarrow> doc_id a = doc_id b
     \<Longrightarrow> a = b"
  by (meson distinct_map inj_onD)

lemma to_bson_Inr:
  assumes "to_bson doc = Inr b"
  shows "doc_id b = doc_id doc" and "message b = message doc"
    and "created_by b = created_by doc"
    and "datetime_to_millis (end_date doc) = Inr (end_date b)"
    and "datetime_to_millis (created_at doc) = Inr (created_at b)"
    and "case start_date doc of None \<Rightarrow> start_date b = None
         | Some t \<Rightarrow> datetime_to_millis t = Inr (the (start_date b)) \<and> start_date b \<noteq> None"
  using assms
  by (auto simp add: to_bson_def split: option.splits sum.splits)

lemma to_bson_ok:
  assumes "datetime_to_millis (end_date doc) = Inr e"
    and "datetime_to_millis (created_at doc) = Inr c"
    and "start_date doc = None"
  shows "to_bson doc = Inr \<lparr>doc_id = doc_id doc, message = message doc, start_date = None,
                         end_date = e, created_by = created_by doc, created_at = c\<rparr>"
  using assms by (simp add: to_bson_def)

lemma update_one_no_match:
  "\<forall>d \<in> set coll. \<not> matches q d \<Longrightarrow> update_one q u coll = (0, coll)"
  by (induction coll) simp_all

lemma delete_one_no_match:
  "\<forall>d \<in> set coll. \<not> matches q d \<Longrightarrow> delete_one q coll = (0, coll)"
  by (induction coll) simp_all

lemma no_doc_no_match:
  "oid \<notin> doc_id ` set coll \<Longrightarrow> \<forall>d \<in> set coll. \<not> matches (Field ''_id'' (Eq (BObjectId oid))) d"
  unfolding matches_id_query by auto

lemma find_one_split:
  "find_one q coll = Some d \<Longrightarrow>
     \<exists>pre post. coll = pre @ d # post \<and> (\<forall>x \<in> set pre. \<not> matches q x) \<and> matches q d"
proof (induction coll)
  case Nil
  then show ?case by (simp add: find_one_def)
next
  case (Cons a coll)
  show ?case
  proof (cases "matches q a")
    case True
    with Cons.prems have "a = d" by (simp add: find_one_def)
    with True have "a # coll = [] @ d # coll \<and> (\<forall>x \<in> set []. \<not> matches q x) \<and> matches q d"
      by simp
    then show ?thesis by blast
  next
    case False
    with Cons.prems have "find_one q coll = Some d" by (simp add: find_one_def)
    from Cons.IH [OF this] obtain pre post where
      "coll = pre @ d # post" "\<forall>x \<in> set pre. \<not> matches q x" "matches q d" by blast
    with False have "a # coll = (a # pre) @ d # post \<and> (\<forall>x \<in> set (a # pre). \<not> matches q x)
        \<and> matches q d" by simp
    then show ?thesis by blast
  qed
qed

lemma update_one_at:
  "\<forall>x \<in> set pre. \<not> matches q x \<Longrightarrow> matches q d \<Longrightarrow>
     update_one q u (pre @ d # post) = (1, pre @ apply_set u d # post)"
  by (induction pre) simp_all

lemma find_one_at:
  "\<forall>x \<in> set pre. \<not> matches q x \<Longrightarrow> matches q d \<Longrightarrow> find_one q (pre @ d # post) = Some d"
  by (induction pre) (simp_all add: find_one_def)

lemma doc_id_apply_set: "doc_id (apply_set u d) = doc_id d"
  by (simp add: apply_set_def Let_def split: option.splits)


subsection \<open>Creating\<close>

lemma create_announcement_Inr:
  assumes "create_announcement p s now new_id msg e sd u = (Inr v, s')"
  shows "\<exists>end_dt start_dt b.
           u \<in> set (teachers_collection s)
         \<and> parse_date_arg p e = Some end_dt
         \<and> start_dt = (case sd of None \<Rightarrow> None
                        | Some x \<Rightarrow> if x = [] then None else parse_date_arg p x)
         \<and> to_bson \<lparr>doc_id = new_id, message = msg, start_date = start_dt,
                end_date = end_dt, created_by = u, created_at = now\<rparr> = Inr b
         \<and> new_id \<notin> doc_id ` set (announcements_collection s)
         \<and> v = serialize \<lparr>doc_id = new_id, message = msg, start_date = start_dt,
                end_date = end_dt, created_by = u, created_at = now\<rparr>
         \<and> s' = s\<lparr>announcements_collection := announcements_collection s @ [b]\<rparr>"
proof -
  have t: "u \<in> set (teachers_collection s)"
  proof (rule ccontr)
    assume "u \<notin> set (teachers_collection s)"
    then have "teachers_find_one u (teachers_collection s) = None"
      by (rule teachers_find_one_None)
    with assms show False by (simp add: create_announcement_def)
  qed
  then have f: "teachers_find_one u (teachers_collection s) = Some u"
    by (rule teachers_find_one_Some)
  from assms f obtain end_dt where e: "parse_date_arg p e = Some end_dt"
    by (cases "parse_date_arg p e") (simp_all add: create_announcement_def)
  define start_dt where
    "start_dt = (case sd of None \<Rightarrow> None | Some x \<Rightarrow> if x = [] then None else parse_date_arg p x)"
  let ?doc = "\<lparr>doc_id = new_id, message = msg, start_date = start_dt,
                end_date = end_dt, created_by = u, created_at = now\<rparr>"
  have ins: "create_announcement p s now new_id msg e sd u
      = (case insert_one ?doc (announcements_collection s) of
           Inl err \<Rightarrow> (Inl err, s)
         | Inr coll \<Rightarrow> (Inr (serialize ?doc), s\<lparr>announcements_collection := coll\<rparr>))"
  proof (cases sd)
    case None
    with f e show ?thesis
      by (simp add: create_announcement_def start_dt_def Let_def split: sum.splits)
  next
    case (Some x)
    show ?thesis
    proof (cases "x = []")
      case True
      with Some f e show ?thesis
        by (simp add: create_announcement_def start_dt_def Let_def split: sum.splits)
    next
      case False
      with Some assms f e obtain t where "parse_date_arg p x = Some t"
        by (cases "parse_date_arg p x") (simp_all add: create_announcement_def)
      with False Some f e show ?thesis
        by (simp add: create_announcement_def start_dt_def Let_def split: sum.splits)
    qed
  qed
  from assms ins obtain coll where
    coll: "insert_one ?doc (announcements_collection s) = Inr coll"
    and v: "v = serialize ?doc" and s': "s' = s\<lparr>announcements_collection := coll\<rparr>"
    by (cases "insert_one ?doc (announcements_collection s)") auto
  from coll obtain b where b: "to_bson ?doc = Inr b"
    and fresh: "doc_id b \<notin> set (map doc_id (announcements_collection s))"
    and c: "coll = announcements_collection s @ [b]"
    by (cases "to_bson ?doc") (auto simp add: insert_one_def split: if_splits)
  from to_bson_Inr(1) [OF b] fresh have "new_id \<notin> doc_id ` set (announcements_collection s)"
    by simp
  with t e b v s' c start_dt_def show ?thesis by blast
qed

lemma create_announcement_Inl:
  "fst (create_announcement p s now new_id msg e sd t) = Inl err \<Longrightarrow>
     snd (create_announcement p s now new_id msg e sd t) = s"
  by (auto simp add: create_announcement_def Let_def split: option.splits sum.splits if_splits)

lemma create_announcement_ok:
  assumes "u \<in> set (teachers_collection s)"
    and "parse_date_arg p e = Some end_dt"
    and "sd = None \<or> sd = Some []"
    and "datetime_to_millis end_dt = Inr end_ms"
    and "utcoffset now = None"
    and "new_id \<notin> doc_id ` set (announcements_collection s)"
  shows "create_announcement p s now new_id msg e sd u
           = (Inr (serialize \<lparr>doc_id = new_id, message = msg, start_date = None,
                end_date = end_dt, created_by = u, created_at = now\<rparr>),
              s\<lparr>announcements_collection := announcements_collection s @
                [\<lparr>doc_id = new_id, message = msg, start_date = None,
                  end_date = end_ms, created_by = u, created_at = utc_millis now\<rparr>]\<rparr>)"
proof -
  let ?doc = "\<lparr>doc_id = new_id, message = msg, start_date = None,
                end_date = end_dt, created_by = u, created_at = now\<rparr>"
  have "to_bson ?doc = Inr \<lparr>doc_id = new_id, message = msg, start_date = None,
                  end_date = end_ms, created_by = u, created_at = utc_millis now\<rparr>"
    using assms(4,5) by (simp add: to_bson_ok datetime_to_millis_naive)
  with assms show ?thesis
    by (auto simp add: create_announcement_def insert_one_def teachers_find_one_Some Let_def)
qed

lemma create_example:
  "create_announcement fromisoformat_naive example_db example_now
       (Oid ''64b7f0000000000000000003'') ''Exam week starts Monday'' ''2099-12-31'' None
       ''mchen''
     = (Inr (serialize doc_new),
        example_db\<lparr>announcements_collection := [ann_open, ann_past, ann_new]\<rparr>)"
proof -
  have "create_announcement fromisoformat_naive example_db example_now
       (Oid ''64b7f0000000000000000003'') ''Exam week starts Monday'' ''2099-12-31'' None
       ''mchen''
     = (Inr (serialize \<lparr>doc_id = Oid ''64b7f0000000000000000003'',
                message = ''Exam week starts Monday'', start_date = None,
                end_date = Datetime 2099 12 31 0 0 0 0 None, created_by = ''mchen'',
                created_at = example_now\<rparr>),
        example_db\<lparr>announcements_collection := announcements_collection example_db @
                [\<lparr>doc_id = Oid ''64b7f0000000000000000003'',
                  message = ''Exam week starts Monday'', start_date = None,
                  end_date = 4102358400000, created_by = ''mchen'',
                  created_at = utc_millis example_now\<rparr>]\<rparr>)"
    by (rule create_announcement_ok)
       (simp_all add: example_db_def ann_open_def ann_past_def example_now_def
          parse_date_arg_def fromisoformat_naive_date_only datetime_to_millis_naive
          utc_millis_examples)
  then show ?thesis
    by (simp add: doc_new_def ann_new_def utc_millis_examples example_db_def)
qed

lemma parse_date_arg_examples:
  assumes "parses_naive_iso p"
  shows "parse_date_arg p ''2099-12-31'' = Some (Datetime 2099 12 31 0 0 0 0 None)"
    and "parse_date_arg p ''2099-12-31T10:00:00'' = Some (Datetime 2099 12 31 10 0 0 0 None)"
  using assms
  by (simp_all add: parse_date_arg_naive fromisoformat_naive_date_only
      fromisoformat_naive_date_time)

lemma datetime_to_millis_Inl: "datetime_to_millis t = Inl err \<Longrightarrow> err = OverflowError"
  by (simp add: datetime_to_millis_def Let_def split: if_splits)

lemma to_bson_Inl: "to_bson doc = Inl err \<Longrightarrow> err = OverflowError"
  by (auto simp add: to_bson_def split: option.splits sum.splits dest: datetime_to_millis_Inl)

lemma insert_one_Inl:
  "insert_one doc coll = Inl err \<Longrightarrow> err = OverflowError \<or> err = DuplicateKeyError"
  by (auto simp add: insert_one_def split: sum.splits if_splits dest: to_bson_Inl)

lemma create_announcement_outcomes:
  assumes "teacher_username \<in> set (teachers_collection s)"
    and "parse_date_arg p e = Some end_dt"
  shows "(\<exists>v. fst (create_announcement p s now new_id msg e sd teacher_username) = Inr v)
       \<or> fst (create_announcement p s now new_id msg e sd teacher_username)
           = Inl (HTTPException 400 ''Invalid start_date format'')
       \<or> fst (create_announcement p s now new_id msg e sd teacher_username) = Inl OverflowError
       \<or> fst (create_announcement p s now new_id msg e sd teacher_username)
           = Inl DuplicateKeyError"
proof -
  have f: "teachers_find_one teacher_username (teachers_collection s) = Some teacher_username"
    using assms(1) by (rule teachers_find_one_Some)
  define start where
    "start = (case sd of
                None \<Rightarrow> Inr None
              | Some x \<Rightarrow>
                  if x = [] then Inr None
                  else (case parse_date_arg p x of
                          None \<Rightarrow> Inl (HTTPException 400 ''Invalid start_date format'')
                        | Some t \<Rightarrow> Inr (Some t)))"
  have r: "create_announcement p s now new_id msg e sd teacher_username
      = (case start of
           Inl err \<Rightarrow> (Inl err, s)
         | Inr start_dt \<Rightarrow>
             (case insert_one \<lparr>doc_id = new_id, message = msg, start_date = start_dt,
                     end_date = end_dt, created_by = teacher_username, created_at = now\<rparr>
                     (announcements_collection s) of
                Inl err \<Rightarrow> (Inl err, s)
              | Inr coll \<Rightarrow>
                  (Inr (serialize \<lparr>doc_id = new_id, message = msg, start_date = start_dt,
                     end_date = end_dt, created_by = teacher_username, created_at = now\<rparr>),
                   s\<lparr>announcements_collection := coll\<rparr>)))"
    using f assms(2)
    by (simp add: create_announcement_def start_def Let_def cong: sum.case_cong)
  show ?thesis
  proof (cases start)
    case (Inl err)
    then have "err = HTTPException 400 ''Invalid start_date format''"
      by (auto simp add: start_def split: option.splits if_splits)
    with Inl r show ?thesis by simp
  next
    case (Inr start_dt)
    show ?thesis
    proof (cases "insert_one \<lparr>doc_id = new_id, message = msg, start_date = start_dt,
                     end_date = end_dt, created_by = teacher_username, created_at = now\<rparr>
                     (announcements_collection s)")
      case (Inl err)
      with insert_one_Inl [OF this] Inr r show ?thesis by auto
    next
      case ok: (Inr coll)
      with Inr r show ?thesis by simp
    qed
  qed
qed

lemma create_announcement_end_parsed:
  assumes "teacher_username \<in> set (teachers_collection s)"
    and "parse_date_arg p e = Some end_dt"
  shows "fst (create_announcement p s now new_id msg e sd teacher_username)
           \<noteq> Inl (HTTPException 400 ''Invalid end_date format'')"
  using create_announcement_outcomes [OF assms, of now new_id msg sd] by auto

lemma create_micro_example:
  "create_announcement fromisoformat_naive example_db now_micro
       (Oid ''64b7f0000000000000000003'') ''Exam week starts Monday'' ''2099-12-31'' None
       ''mchen''
     = (Inr (serialize doc_micro),
        example_db\<lparr>announcements_collection := [ann_open, ann_past, ann_micro]\<rparr>)"
proof -
  have "create_announcement fromisoformat_naive example_db now_micro
       (Oid ''64b7f0000000000000000003'') ''Exam week starts Monday'' ''2099-12-31'' None
       ''mchen''
     = (Inr (serialize \<lparr>doc_id = Oid ''64b7f0000000000000000003'',
                message = ''Exam week starts Monday'', start_date = None,
                end_date = Datetime 2099 12 31 0 0 0 0 None, created_by = ''mchen'',
                created_at = now_micro\<rparr>),
        example_db\<lparr>announcements_collection := announcements_collection example_db @
                [\<lparr>doc_id = Oid ''64b7f0000000000000000003'',
                  message = ''Exam week starts Monday'', start_date = None,
                  end_date = 4102358400000, created_by = ''mchen'',
                  created_at = utc_millis now_micro\<rparr>]\<rparr>)"
    by (rule create_announcement_ok)
       (simp_all add: example_db_def ann_open_def ann_past_def now_micro_def
          parse_date_arg_examples parses_naive_iso_self datetime_to_millis_naive
          utc_millis_examples)
  then show ?thesis
    by (simp add: doc_micro_def ann_micro_def utc_millis_examples example_db_def)
qed


subsection \<open>Updating\<close>

lemma update_no_fields_built:
  "update_end_date p None (update_message None empty_update) = Inr empty_update"
  "update_start_date p None empty_update = Inr empty_update"
  by (simp_all add: update_end_date_def update_message_def update_start_date_def)

lemma update_clear_start_built:
  "update_start_date p (Some []) empty_update
     = Inr (empty_update\<lparr>set_start_date := Some None\<rparr>)"
  "(empty_update\<lparr>set_start_date := Some None\<rparr> :: 'd update_doc) \<noteq> empty_update"
  "encode_update (empty_update\<lparr>set_start_date := Some None\<rparr>)
     = Inr (empty_update\<lparr>set_start_date := Some None\<rparr>)"
  "apply_set (empty_update\<lparr>set_start_date := Some None\<rparr>) d = d\<lparr>start_date := None\<rparr>"
  by (simp_all add: update_start_date_def empty_update_def apply_set_def encode_update_def)


lemma update_doc_built:
  assumes "update_end_date p e (update_message m empty_update) = Inr u1"
    and "update_start_date p sd u1 = Inr u"
  shows "set_message u = m"
    and "(u = empty_update) = (m = None \<and> e = None \<and> sd = None)"
  using assms
  by (auto simp add: update_end_date_def update_message_def update_start_date_def
      empty_update_def split: option.splits if_splits)


lemma update_doc_parses:
  assumes "\<forall>x. e = Some x \<longrightarrow> (\<exists>t ms. parse_date_arg p x = Some t \<and> datetime_to_millis t = Inr ms)"
    and "\<forall>x. sd = Some x \<longrightarrow> x \<noteq> [] \<longrightarrow>
           (\<exists>t ms. parse_date_arg p x = Some t \<and> datetime_to_millis t = Inr ms)"
  shows "\<exists>u1 u su. update_end_date p e (update_message m empty_update) = Inr u1
           \<and> update_start_date p sd u1 = Inr u \<and> encode_update u = Inr su"
proof -
  obtain u1 where u1: "update_end_date p e (update_message m empty_update) = Inr u1"
    and e1: "\<forall>t. set_end_date u1 = Some t \<longrightarrow> (\<exists>ms. datetime_to_millis t = Inr ms)"
    and s1: "set_start_date u1 = None"
    using assms(1)
    by (cases e) (auto simp add: update_end_date_def update_message_def empty_update_def
        split: option.splits)
  obtain u where u: "update_start_date p sd u1 = Inr u"
    and e2: "\<forall>t. set_end_date u = Some t \<longrightarrow> (\<exists>ms. datetime_to_millis t = Inr ms)"
    and e3: "\<forall>t. set_start_date u = Some (Some t) \<longrightarrow> (\<exists>ms. datetime_to_millis t = Inr ms)"
  proof (cases sd)
    case None
    with e1 s1 that [of u1] show ?thesis
      by (simp add: update_start_date_def)
  next
    case (Some x)
    show ?thesis
    proof (cases "x = []")
      case True
      with Some e1 that [of "u1\<lparr>set_start_date := Some None\<rparr>"] show ?thesis
        by (simp add: update_start_date_def)
    next
      case False
      with Some assms(2) obtain t ms where "parse_date_arg p x = Some t"
        "datetime_to_millis t = Inr ms" by blast
      with False Some e1 that [of "u1\<lparr>set_start_date := Some (Some t)\<rparr>"] show ?thesis
        by (simp add: update_start_date_def)
    qed
  qed
  have "\<exists>su. encode_update u = Inr su"
    using e2 e3
    by (cases "set_end_date u"; cases "set_start_date u")
       (auto simp add: encode_update_def split: option.splits)
  with u1 u show ?thesis by blast
qed

lemma update_announcement_found:
  assumes teacher: "teacher_username \<in> set (teachers_collection s)"
    and oid: "ObjectId announcement_id = Some oid"
    and found: "find_one (Field ''_id'' (Eq (BObjectId oid))) (announcements_collection s) = Some d"
    and u1: "update_end_date p e (update_message m empty_update) = Inr u1"
    and u: "update_start_date p sd u1 = Inr u"
    and ne: "u \<noteq> empty_update"
    and su: "encode_update u = Inr su"
  shows "\<exists>pre post.
           announcements_collection s = pre @ d # post
         \<and> (\<forall>x \<in> set pre. doc_id x \<noteq> oid) \<and> doc_id d = oid
         \<and> update_announcement p s announcement_id m e sd teacher_username
             = (Inr (serialize (from_bson (apply_set su d))),
                s\<lparr>announcements_collection := pre @ apply_set su d # post\<rparr>)"
proof -
  let ?q = "Field ''_id'' (Eq (BObjectId oid))"
  from find_one_split [OF found] obtain pre post where
    coll: "announcements_collection s = pre @ d # post"
    and pre: "\<forall>x \<in> set pre. \<not> matches ?q x" and d: "matches ?q d"
    by blast
  have upd: "update_one ?q su (announcements_collection s) = (1, pre @ apply_set su d # post)"
    using update_one_at [OF pre d, of su post] coll by simp
  have "matches ?q (apply_set su d)"
    using d unfolding matches_id_query by (simp add: doc_id_apply_set)
  then have again: "find_one ?q (pre @ apply_set su d # post) = Some (apply_set su d)"
    using pre by (rule find_one_at [rotated])
  have "update_announcement p s announcement_id m e sd teacher_username
          = (Inr (serialize (from_bson (apply_set su d))),
             s\<lparr>announcements_collection := pre @ apply_set su d # post\<rparr>)"
    using teacher oid u1 u ne su upd again
    by (simp add: update_announcement_def teachers_find_one_Some)
  moreover have "\<forall>x \<in> set pre. doc_id x \<noteq> oid"
    using pre unfolding matches_id_query by simp
  moreover have "doc_id d = oid"
    using d unfolding matches_id_query by simp
  ultimately show ?thesis
    using coll by blast
qed


lemma update_announcement_collection:
  "announcements_collection (snd (update_announcement p s aid m e sd t))
     = announcements_collection s
   \<or> (\<exists>oid u1 u su. update_end_date p e (update_message m empty_update) = Inr u1
         \<and> update_start_date p sd u1 = Inr u \<and> encode_update u = Inr su
         \<and> announcements_collection (snd (update_announcement p s aid m e sd t))
             = snd (update_one (Field ''_id'' (Eq (BObjectId oid))) su
                 (announcements_collection s)))"
proof (cases "teachers_find_one t (teachers_collection s)")
  case None
  then show ?thesis by (simp add: update_announcement_def)
next
  case teacher: (Some a)
  show ?thesis
  proof (cases "ObjectId aid")
    case None
    with teacher show ?thesis by (simp add: update_announcement_def)
  next
    case oid: (Some oid)
    show ?thesis
    proof (cases "update_end_date p e (update_message m empty_update)")
      case (Inl err)
      with teacher oid show ?thesis by (simp add: update_announcement_def)
    next
      case u1: (Inr u1)
      show ?thesis
      proof (cases "update_start_date p sd u1")
        case (Inl err)
        with teacher oid u1 show ?thesis by (simp add: update_announcement_def)
      next
        case u: (Inr u)
        show ?thesis
        proof (cases "u = empty_update")
          case True
          with teacher oid u1 u show ?thesis by (simp add: update_announcement_def)
        next
          case ne: False
          show ?thesis
          proof (cases "encode_update u")
            case (Inl err)
            with teacher oid u1 u ne show ?thesis by (simp add: update_announcement_def)
          next
            case su: (Inr su)
            with teacher oid u1 u ne
            have "announcements_collection (snd (update_announcement p s aid m e sd t))
                = snd (update_one (Field ''_id'' (Eq (BObjectId oid))) su
                    (announcements_collection s))"
              by (simp add: update_announcement_def Let_def split: prod.splits option.splits)
            with u1 u su show ?thesis by blast
          qed
        qed
      qed
    qed
  qed
qed

lemma doc_ids_update_one: "map doc_id (snd (update_one q u coll)) = map doc_id coll"
  by (induction coll) (auto simp add: doc_id_apply_set split: prod.splits)

lemma doc_ids_delete_one:
  "set (snd (delete_one q coll)) \<subseteq> set coll
   \<and> (distinct (map doc_id coll) \<longrightarrow> distinct (map doc_id (snd (delete_one q coll))))"
  by (induction coll) (auto split: prod.splits)

lemma delete_announcement_collection:
  "announcements_collection (snd (delete_announcement s aid t)) = announcements_collection s
   \<or> (\<exists>oid. announcements_collection (snd (delete_announcement s aid t))
         = snd (delete_one (Field ''_id'' (Eq (BObjectId oid))) (announcements_collection s)))"
proof (cases "teachers_find_one t (teachers_collection s)")
  case None
  then show ?thesis by (simp add: delete_announcement_def)
next
  case teacher: (Some a)
  show ?thesis
  proof (cases "ObjectId aid")
    case None
    with teacher show ?thesis by (simp add: delete_announcement_def)
  next
    case (Some oid)
    with teacher
    have "announcements_collection (snd (delete_announcement s aid t))
        = snd (delete_one (Field ''_id'' (Eq (BObjectId oid))) (announcements_collection s))"
      by (simp add: delete_announcement_def Let_def split: prod.splits)
    then show ?thesis by blast
  qed
qed

lemma distinct_ids_preserved:
  assumes "distinct (map doc_id (announcements_collection s))"
  shows "distinct (map doc_id (announcements_collection
            (snd (create_announcement p s now new_id msg e sd t))))"
    and "distinct (map doc_id (announcements_collection
            (snd (update_announcement p s aid m ue usd t))))"
    and "distinct (map doc_id (announcements_collection (snd (delete_announcement s aid t))))"
proof -
  let ?r = "create_announcement p s now new_id msg e sd t"
  show "distinct (map doc_id (announcements_collection (snd ?r)))"
  proof (cases "fst ?r")
    case (Inl err)
    then show ?thesis using assms by (simp add: create_announcement_Inl)
  next
    case (Inr v)
    then have "?r = (Inr v, snd ?r)" by (simp add: prod_eq_iff)
    from create_announcement_Inr [OF this] obtain b where
      "to_bson \<lparr>doc_id = new_id, message = msg,
          start_date = (case sd of None \<Rightarrow> None
                        | Some x \<Rightarrow> if x = [] then None else parse_date_arg p x),
          end_date = the (parse_date_arg p e), created_by = t, created_at = now\<rparr> = Inr b"
      "new_id \<notin> doc_id ` set (announcements_collection s)"
      "snd ?r = s\<lparr>announcements_collection := announcements_collection s @ [b]\<rparr>"
      by auto
    with to_bson_Inr(1) [OF this(1)] assms show ?thesis by auto
  qed
  show "distinct (map doc_id (announcements_collection
            (snd (update_announcement p s aid m ue usd t))))"
    using update_announcement_collection [of p s aid m ue usd t] assms
    by (auto simp add: doc_ids_update_one)
  show "distinct (map doc_id (announcements_collection (snd (delete_announcement s aid t))))"
    using delete_announcement_collection [of s aid t] assms doc_ids_delete_one
    by auto
qed



section \<open>The claims\<close>

subsection \<open>Listing\<close>

text \<open>
  C1, as amended. A stored announcement \<open>A\<close> is among the documents that
  \<open>list_active\<close> selects if and only if \<open>now\<close> is less than one millisecond after
  \<open>end_date A\<close> (the filter carries \<open>now\<close> cut to its millisecond) and the start date
  of \<open>A\<close> is null or not after \<open>now\<close>. Times are compared as instants, in
  microseconds. Where the identifiers of the collection are distinct (the unique index
  on \<^verbatim>\<open>_id\<close>, kept by every handler), the same holds of the serialized \<open>A\<close> and
  the response.
\<close>

theorem list_active_iff:
  assumes "A \<in> set (announcements_collection s)"
  shows "(A \<in> set (find_sort_end_date (active_query now) (announcements_collection s)))
           = (utc_micros now < 1000 * end_date A + 1000
                \<and> (start_date A = None
                     \<or> (\<exists>t. start_date A = Some t \<and> 1000 * t \<le> utc_micros now)))
         \<and> (distinct (map doc_id (announcements_collection s)) \<longrightarrow>
             (serialize (from_bson A) \<in> set (get_active_announcements s now))
               = (utc_micros now < 1000 * end_date A + 1000
                    \<and> (start_date A = None
                         \<or> (\<exists>t. start_date A = Some t \<and> 1000 * t \<le> utc_micros now))))
         \<and> (utc_micros now < 1000 * end_date A + 1000) = (utc_millis now \<le> end_date A)"
proof -
  let ?P = "utc_micros now < 1000 * end_date A + 1000
      \<and> (start_date A = None \<or> (\<exists>t. start_date A = Some t \<and> 1000 * t \<le> utc_micros now))"
  let ?docs = "find_sort_end_date (active_query now) (announcements_collection s)"
  have m: "matches (active_query now) A = ?P"
    by (simp add: matches_active_query utc_millis_def floor_ms_le le_floor_ms
        split: option.splits)
  have docs: "(A \<in> set ?docs) = ?P"
    using assms m by (simp add: set_find_sort_end_date)
  have views: "(serialize (from_bson A) \<in> set (get_active_announcements s now)) = ?P"
    if dis: "distinct (map doc_id (announcements_collection s))"
  proof
    assume "serialize (from_bson A) \<in> set (get_active_announcements s now)"
    then obtain B where B: "B \<in> set ?docs"
      and eq: "serialize (from_bson B) = serialize (from_bson A)"
      by (auto simp add: get_active_announcements_def)
    from B have "B \<in> set (announcements_collection s)"
      by (simp add: set_find_sort_end_date)
    with dis assms eq have "B = A"
      by (intro distinct_ids_eq [OF dis]) (auto dest: serialize_doc_id)
    with B docs show ?P by simp
  next
    assume ?P
    with docs have "A \<in> set ?docs" by simp
    then show "serialize (from_bson A) \<in> set (get_active_announcements s now)"
      by (simp add: get_active_announcements_def)
  qed
  have cut: "(utc_micros now < 1000 * end_date A + 1000) = (utc_millis now \<le> end_date A)"
    by (simp add: utc_millis_def floor_ms_le)
  from docs views cut show ?thesis by blast
qed

theorem list_active_iff_witness:
  "ann_open \<in> set (announcements_collection example_db)
   \<and> distinct (map doc_id (announcements_collection example_db))
   \<and> utc_micros example_now < 1000 * end_date ann_open + 1000
   \<and> start_date ann_open = None
   \<and> serialize (from_bson ann_open) \<in> set (get_active_announcements example_db example_now)
   \<and> ann_past \<in> set (announcements_collection example_db)
   \<and> 1000 * end_date ann_past + 1000 \<le> utc_micros example_now
   \<and> serialize (from_bson ann_past) \<notin> set (get_active_announcements example_db example_now)"
proof -
  have h: "ann_open \<in> set (announcements_collection example_db)"
    and h': "ann_past \<in> set (announcements_collection example_db)"
    by (simp_all add: example_db_def)
  have d: "distinct (map doc_id (announcements_collection example_db))"
    by (simp add: example_db_def ann_open_def ann_past_def)
  have a: "utc_micros example_now < 1000 * end_date ann_open + 1000 \<and> start_date ann_open = None"
    by (simp add: ann_open_def example_now_def calendar_defs)
  have b: "1000 * end_date ann_past + 1000 \<le> utc_micros example_now"
    by (simp add: ann_past_def example_now_def calendar_defs)
  from list_active_iff [OF h, of example_now] d a
  have 1: "serialize (from_bson ann_open) \<in> set (get_active_announcements example_db example_now)"
    by blast
  from list_active_iff [OF h', of example_now] d b
  have 2: "serialize (from_bson ann_past) \<notin> set (get_active_announcements example_db example_now)"
    by auto
  from h h' d a b 1 2 show ?thesis by blast
qed

text \<open>
  C1 as stated fails: with \<open>now\<close> half a millisecond after the end date of a stored
  announcement, \<open>list_active\<close> still returns it, although its \<open>end_date\<close> is before
  \<open>now\<close>.
\<close>

theorem list_active_counterexample:
  "ann_edge \<in> set (announcements_collection edge_db)
   \<and> get_active_announcements edge_db now_edge = [serialize (from_bson ann_edge)]
   \<and> 1000 * end_date ann_edge < utc_micros now_edge"
  by (simp add: get_active_announcements_def find_sort_end_date_def active_query_def
      doc_get_def edge_db_def ann_edge_def utc_millis_examples)

text \<open>
  C8. The response of \<open>list_active\<close> and the response of \<open>list_all\<close> are the
  serializations, in order, of stored documents whose end dates ascend; \<open>list_all\<close>
  leaves no stored document out.
\<close>

theorem lists_sorted_by_end_date:
  "(\<exists>docs. get_active_announcements s now = map (\<lambda>doc. serialize (from_bson doc)) docs
       \<and> set docs \<subseteq> set (announcements_collection s) \<and> sorted (map end_date docs))
   \<and> (\<forall>vs. get_all_announcements s teacher_username = Inr vs \<longrightarrow>
         (\<exists>docs. vs = map (\<lambda>doc. serialize (from_bson doc)) docs
            \<and> set docs = set (announcements_collection s)
            \<and> length docs = length (announcements_collection s)
            \<and> sorted (map end_date docs)))"
proof (intro conjI allI impI)
  let ?a = "find_sort_end_date (active_query now) (announcements_collection s)"
  have "get_active_announcements s now = map (\<lambda>doc. serialize (from_bson doc)) ?a"
    by (simp add: get_active_announcements_def)
  moreover have "set ?a \<subseteq> set (announcements_collection s)"
    by (auto simp add: set_find_sort_end_date)
  moreover have "sorted (map end_date ?a)"
    by (rule sorted_find_sort_end_date)
  ultimately show "\<exists>docs. get_active_announcements s now
         = map (\<lambda>doc. serialize (from_bson doc)) docs
       \<and> set docs \<subseteq> set (announcements_collection s) \<and> sorted (map end_date docs)"
    by blast
next
  fix vs
  assume ok: "get_all_announcements s teacher_username = Inr vs"
  let ?b = "find_sort_end_date (And []) (announcements_collection s)"
  from ok have "vs = map (\<lambda>doc. serialize (from_bson doc)) ?b"
    by (auto simp add: get_all_announcements_def split: option.splits)
  moreover have "set ?b = set (announcements_collection s)"
    by (simp add: set_find_sort_end_date)
  moreover have "length ?b = length (announcements_collection s)"
    by (simp add: find_sort_end_date_def)
  moreover have "sorted (map end_date ?b)"
    by (rule sorted_find_sort_end_date)
  ultimately show "\<exists>docs. vs = map (\<lambda>doc. serialize (from_bson doc)) docs
            \<and> set docs = set (announcements_collection s)
            \<and> length docs = length (announcements_collection s)
            \<and> sorted (map end_date docs)"
    by blast
qed

theorem lists_sorted_by_end_date_witness:
  "get_all_announcements example_db ''mchen''
     = Inr (map (\<lambda>doc. serialize (from_bson doc)) [ann_past, ann_open])
   \<and> (\<exists>docs. map (\<lambda>doc. serialize (from_bson doc)) [ann_past, ann_open]
           = map (\<lambda>doc. serialize (from_bson doc)) docs
         \<and> set docs = set (announcements_collection example_db)
         \<and> length docs = length (announcements_collection example_db)
         \<and> sorted (map end_date docs))"
proof -
  have h: "get_all_announcements example_db ''mchen''
      = Inr (map (\<lambda>doc. serialize (from_bson doc)) [ann_past, ann_open])"
    by (simp add: get_all_announcements_def teachers_find_one_def find_sort_end_date_def
        example_db_def ann_open_def ann_past_def)
  from lists_sorted_by_end_date [of example_db example_now "''mchen''"] h
  show ?thesis by blast
qed

subsection \<open>Creating\<close>

text \<open>
  C2. For a known teacher and whatever \<^verbatim>\<open>fromisoformat\<close> is, \<open>create\<close> fails
  with 400 "Invalid end_date format" if and only if \<^verbatim>\<open>fromisoformat\<close> accepts
  neither the string nor the string followed by \<^verbatim>\<open>T00:00:00\<close>. When \<open>create\<close>
  succeeds, the stored \<open>end_date\<close> is the millisecond of the first of the two parses
  that succeeds; when a parse succeeds, \<open>create\<close> can still fail, but only on the
  start date, in the encoding of a date outside the store's range, or on a taken
  identifier. With a \<^verbatim>\<open>fromisoformat\<close> that parses the naive ISO forms, a bare
  calendar date parses to midnight of that day, and a \<open>create\<close> with
  \<^verbatim>\<open>2099-12-31\<close> stores midnight of that date and one with
  \<^verbatim>\<open>2099-12-31T10:00:00\<close> stores that time.
\<close>

theorem create_end_date:
  assumes teacher: "teacher_username \<in> set (teachers_collection s)"
  shows "((fst (create_announcement p s now new_id msg e sd teacher_username)
             = Inl (HTTPException 400 ''Invalid end_date format''))
            = (p e = None \<and> p (e @ ''T00:00:00'') = None))
       \<and> (\<forall>v s'. create_announcement p s now new_id msg e sd teacher_username = (Inr v, s') \<longrightarrow>
            (\<exists>doc t. announcements_collection s' = announcements_collection s @ [doc]
               \<and> (p e = Some t \<or> p e = None \<and> p (e @ ''T00:00:00'') = Some t)
               \<and> end_date doc = utc_millis t
               \<and> v_end_date v = Some (isoformat t)))
       \<and> (parse_date_arg p e \<noteq> None \<longrightarrow>
            (\<exists>v. fst (create_announcement p s now new_id msg e sd teacher_username) = Inr v)
          \<or> fst (create_announcement p s now new_id msg e sd teacher_username)
              = Inl (HTTPException 400 ''Invalid start_date format'')
          \<or> fst (create_announcement p s now new_id msg e sd teacher_username)
              = Inl OverflowError
          \<or> fst (create_announcement p s now new_id msg e sd teacher_username)
              = Inl DuplicateKeyError)
       \<and> (parses_naive_iso p \<longrightarrow>
            (\<forall>y m d t. parse_isoformat_date e = Some (y, m, d)
                \<and> new_datetime y m d 0 0 0 0 = Some t \<longrightarrow>
               parse_date_arg p e = Some (Datetime y m d 0 0 0 0 None)))
       \<and> (parses_naive_iso p \<and> utcoffset now = None
            \<and> new_id \<notin> doc_id ` set (announcements_collection s) \<longrightarrow>
            create_announcement p s now new_id msg ''2099-12-31'' None teacher_username
              = (Inr (serialize \<lparr>doc_id = new_id, message = msg, start_date = None,
                   end_date = Datetime 2099 12 31 0 0 0 0 None, created_by = teacher_username,
                   created_at = now\<rparr>),
                 s\<lparr>announcements_collection := announcements_collection s @
                   [\<lparr>doc_id = new_id, message = msg, start_date = None,
                     end_date = 4102358400000, created_by = teacher_username,
                     created_at = utc_millis now\<rparr>]\<rparr>)
          \<and> millis_to_datetime 4102358400000 = Datetime 2099 12 31 0 0 0 0 None
          \<and> create_announcement p s now new_id msg ''2099-12-31T10:00:00'' None teacher_username
              = (Inr (serialize \<lparr>doc_id = new_id, message = msg, start_date = None,
                   end_date = Datetime 2099 12 31 10 0 0 0 None, created_by = teacher_username,
                   created_at = now\<rparr>),
                 s\<lparr>announcements_collection := announcements_collection s @
                   [\<lparr>doc_id = new_id, message = msg, start_date = None,
                     end_date = 4102394400000, created_by = teacher_username,
                     created_at = utc_millis now\<rparr>]\<rparr>)
          \<and> millis_to_datetime 4102394400000 = Datetime 2099 12 31 10 0 0 0 None)"
proof (intro conjI allI impI)
  let ?r = "create_announcement p s now new_id msg e sd teacher_username"
  have f: "teachers_find_one teacher_username (teachers_collection s) = Some teacher_username"
    using teacher by (rule teachers_find_one_Some)
  show "(fst ?r = Inl (HTTPException 400 ''Invalid end_date format''))
          = (p e = None \<and> p (e @ ''T00:00:00'') = None)"
  proof (cases "parse_date_arg p e")
    case None
    then have "fst ?r = Inl (HTTPException 400 ''Invalid end_date format'')"
      using f by (simp add: create_announcement_def)
    with None show ?thesis by (simp add: parse_date_arg_None)
  next
    case (Some end_dt)
    then have "fst ?r \<noteq> Inl (HTTPException 400 ''Invalid end_date format'')"
      using teacher by (intro create_announcement_end_parsed)
    moreover from Some have "\<not> (p e = None \<and> p (e @ ''T00:00:00'') = None)"
      using parse_date_arg_None [of p e] by simp
    ultimately show ?thesis by simp
  qed
next
  fix v s'
  assume "create_announcement p s now new_id msg e sd teacher_username = (Inr v, s')"
  from create_announcement_Inr [OF this] obtain end_dt start_dt b where
    e: "parse_date_arg p e = Some end_dt"
    and b: "to_bson \<lparr>doc_id = new_id, message = msg, start_date = start_dt,
                end_date = end_dt, created_by = teacher_username, created_at = now\<rparr> = Inr b"
    and v: "v = serialize \<lparr>doc_id = new_id, message = msg, start_date = start_dt,
                end_date = end_dt, created_by = teacher_username, created_at = now\<rparr>"
    and s': "s' = s\<lparr>announcements_collection := announcements_collection s @ [b]\<rparr>"
    by blast
  have 1: "announcements_collection s' = announcements_collection s @ [b]"
    using s' by simp
  have 2: "v_end_date v = Some (isoformat end_dt)"
    using v by (simp add: serialize_def)
  have 3: "p e = Some end_dt \<or> p e = None \<and> p (e @ ''T00:00:00'') = Some end_dt"
    using e by (simp add: parse_date_arg_def split: option.splits)
  have 4: "end_date b = utc_millis end_dt"
    using to_bson_Inr(4) [OF b] by (auto dest: datetime_to_millis_Inr)
  from 1 2 3 4
  show "\<exists>doc t. announcements_collection s' = announcements_collection s @ [doc]
               \<and> (p e = Some t \<or> p e = None \<and> p (e @ ''T00:00:00'') = Some t)
               \<and> end_date doc = utc_millis t
               \<and> v_end_date v = Some (isoformat t)"
    by blast
next
  assume "parse_date_arg p e \<noteq> None"
  then obtain end_dt where "parse_date_arg p e = Some end_dt" by blast
  from create_announcement_outcomes [OF teacher this, of now new_id msg sd]
  show "(\<exists>v. fst (create_announcement p s now new_id msg e sd teacher_username) = Inr v)
          \<or> fst (create_announcement p s now new_id msg e sd teacher_username)
              = Inl (HTTPException 400 ''Invalid start_date format'')
          \<or> fst (create_announcement p s now new_id msg e sd teacher_username)
              = Inl OverflowError
          \<or> fst (create_announcement p s now new_id msg e sd teacher_username)
              = Inl DuplicateKeyError" .
next
  fix y m d t
  assume p: "parses_naive_iso p"
    and a: "parse_isoformat_date e = Some (y, m, d) \<and> new_datetime y m d 0 0 0 0 = Some t"
  then have "t = Datetime y m d 0 0 0 0 None" by (auto dest: new_datetime_Some)
  with a have "fromisoformat_naive e = Some (Datetime y m d 0 0 0 0 None)"
    by (simp add: fromisoformat_naive_bare_date)
  with p show "parse_date_arg p e = Some (Datetime y m d 0 0 0 0 None)"
    by (rule parse_date_arg_naive)
next
  assume a: "parses_naive_iso p \<and> utcoffset now = None
            \<and> new_id \<notin> doc_id ` set (announcements_collection s)"
  then show "create_announcement p s now new_id msg ''2099-12-31'' None teacher_username
              = (Inr (serialize \<lparr>doc_id = new_id, message = msg, start_date = None,
                   end_date = Datetime 2099 12 31 0 0 0 0 None, created_by = teacher_username,
                   created_at = now\<rparr>),
                 s\<lparr>announcements_collection := announcements_collection s @
                   [\<lparr>doc_id = new_id, message = msg, start_date = None,
                     end_date = 4102358400000, created_by = teacher_username,
                     created_at = utc_millis now\<rparr>]\<rparr>)"
    using teacher
    by (intro create_announcement_ok)
       (simp_all add: parse_date_arg_examples datetime_to_millis_naive utc_millis_examples)
next
  show "millis_to_datetime 4102358400000 = Datetime 2099 12 31 0 0 0 0 None"
    by (rule millis_to_datetime_examples)
next
  assume a: "parses_naive_iso p \<and> utcoffset now = None
            \<and> new_id \<notin> doc_id ` set (announcements_collection s)"
  then show "create_announcement p s now new_id msg ''2099-12-31T10:00:00'' None teacher_username
              = (Inr (serialize \<lparr>doc_id = new_id, message = msg, start_date = None,
                   end_date = Datetime 2099 12 31 10 0 0 0 None, created_by = teacher_username,
                   created_at = now\<rparr>),
                 s\<lparr>announcements_collection := announcements_collection s @
                   [\<lparr>doc_id = new_id, message = msg, start_date = None,
                     end_date = 4102394400000, created_by = teacher_username,
                     created_at = utc_millis now\<rparr>]\<rparr>)"
    using teacher
    by (intro create_announcement_ok)
       (simp_all add: parse_date_arg_examples datetime_to_millis_naive utc_millis_examples)
next
  show "millis_to_datetime 4102394400000 = Datetime 2099 12 31 10 0 0 0 None"
    by (rule millis_to_datetime_examples)
qed

theorem create_end_date_witness:
  "''mchen'' \<in> set (teachers_collection example_db)
   \<and> parses_naive_iso fromisoformat_naive
   \<and> utcoffset example_now = None
   \<and> Oid ''64b7f0000000000000000003'' \<notin> doc_id ` set (announcements_collection example_db)
   \<and> create_announcement fromisoformat_naive example_db example_now
         (Oid ''64b7f0000000000000000003'') ''Exam week starts Monday'' ''2099-12-31'' None
         ''mchen''
       = (Inr (serialize doc_new),
          example_db\<lparr>announcements_collection := [ann_open, ann_past, ann_new]\<rparr>)
   \<and> end_date ann_new = 4102358400000
   \<and> create_announcement fromisoformat_naive example_db example_now
         (Oid ''64b7f0000000000000000003'') ''Exam week starts Monday'' ''2099-12-31T10:00:00''
         None ''mchen''
       = (Inr (serialize doc_new_time),
          example_db\<lparr>announcements_collection := [ann_open, ann_past, ann_new_time]\<rparr>)
   \<and> end_date ann_new_time = 4102394400000
   \<and> fst (create_announcement fromisoformat_naive example_db example_now
         (Oid ''64b7f0000000000000000003'') ''Exam week starts Monday'' ''next week'' None
         ''mchen'')
       = Inl (HTTPException 400 ''Invalid end_date format'')"
proof -
  have t: "''mchen'' \<in> set (teachers_collection example_db)"
    by (simp add: example_db_def)
  have n: "utcoffset example_now = None"
    by (simp add: example_now_def)
  have i: "Oid ''64b7f0000000000000000003'' \<notin> doc_id ` set (announcements_collection example_db)"
    by (simp add: example_db_def ann_open_def ann_past_def)
  have bad: "fromisoformat_naive ''next week'' = None
      \<and> fromisoformat_naive (''next week'' @ ''T00:00:00'') = None"
    by (simp add: fromisoformat_naive_def parse_isoformat_date_def parse_digits_def
        digit_val_def)
  note th = create_end_date [OF t, of fromisoformat_naive example_now
      "Oid ''64b7f0000000000000000003''" "''Exam week starts Monday''"]
  from th [of "''2099-12-31''" None] parses_naive_iso_self n i
  have 1: "create_announcement fromisoformat_naive example_db example_now
         (Oid ''64b7f0000000000000000003'') ''Exam week starts Monday'' ''2099-12-31'' None
         ''mchen''
       = (Inr (serialize doc_new),
          example_db\<lparr>announcements_collection := [ann_open, ann_past, ann_new]\<rparr>)"
    by (simp add: doc_new_def ann_new_def utc_millis_examples example_db_def)
  from th [of "''2099-12-31''" None] parses_naive_iso_self n i
  have 2: "create_announcement fromisoformat_naive example_db example_now
         (Oid ''64b7f0000000000000000003'') ''Exam week starts Monday'' ''2099-12-31T10:00:00''
         None ''mchen''
       = (Inr (serialize doc_new_time),
          example_db\<lparr>announcements_collection := [ann_open, ann_past, ann_new_time]\<rparr>)"
    by (simp add: doc_new_time_def ann_new_time_def utc_millis_examples example_db_def)
  from th [of "''next week''" None] bad
  have 3: "fst (create_announcement fromisoformat_naive example_db example_now
         (Oid ''64b7f0000000000000000003'') ''Exam week starts Monday'' ''next week'' None
         ''mchen'')
       = Inl (HTTPException 400 ''Invalid end_date format'')"
    by simp
  from t n i 1 2 3 parses_naive_iso_self show ?thesis
    by (simp add: ann_new_def ann_new_time_def)
qed

text \<open>
  C3. A \<open>create\<close> whose \<open>teacher_username\<close> matches no teacher record fails with 401
  and leaves the database, and so the announcement collection, as it was.
\<close>

theorem create_unknown_teacher:
  assumes "teacher_username \<notin> set (teachers_collection s)"
  shows "create_announcement p s now new_id msg e sd teacher_username
           = (Inl (HTTPException 401 ''Invalid teacher credentials''), s)
         \<and> announcements_collection
              (snd (create_announcement p s now new_id msg e sd teacher_username))
             = announcements_collection s"
  using assms by (simp add: create_announcement_def teachers_find_one_None)

theorem create_unknown_teacher_witness:
  "''intruder'' \<notin> set (teachers_collection example_db)
   \<and> create_announcement fromisoformat_naive example_db example_now
        (Oid ''64b7f0000000000000000003'') ''Exam week starts Monday'' ''2099-12-31'' None
        ''intruder''
       = (Inl (HTTPException 401 ''Invalid teacher credentials''), example_db)"
proof -
  have h: "''intruder'' \<notin> set (teachers_collection example_db)"
    by (simp add: example_db_def)
  from create_unknown_teacher [OF h] h show ?thesis by blast
qed

text \<open>
  C10. A \<open>create\<close> with the empty string as \<open>start_date\<close> behaves exactly as one
  with no \<open>start_date\<close>: it never fails with "Invalid start_date format", whenever
  it succeeds the stored and the returned \<open>start_date\<close> are null, and it succeeds when
  the teacher is known, the end date parses to a date the store can encode, the clock
  is naive and the identifier is free.
\<close>

theorem create_empty_start_date:
  "create_announcement p s now new_id msg e (Some []) teacher_username
     = create_announcement p s now new_id msg e None teacher_username
   \<and> fst (create_announcement p s now new_id msg e (Some []) teacher_username)
       \<noteq> Inl (HTTPException 400 ''Invalid start_date format'')
   \<and> (\<forall>v s'. create_announcement p s now new_id msg e (Some []) teacher_username = (Inr v, s')
         \<longrightarrow> v_start_date v = None
           \<and> (\<exists>doc. announcements_collection s' = announcements_collection s @ [doc]
                 \<and> start_date doc = None))
   \<and> (\<forall>end_dt end_ms. teacher_username \<in> set (teachers_collection s)
          \<and> parse_date_arg p e = Some end_dt
          \<and> datetime_to_millis end_dt = Inr end_ms
          \<and> utcoffset now = None
          \<and> new_id \<notin> doc_id ` set (announcements_collection s) \<longrightarrow>
        (\<exists>doc b. create_announcement p s now new_id msg e (Some []) teacher_username
                 = (Inr (serialize doc),
                    s\<lparr>announcements_collection := announcements_collection s @ [b]\<rparr>)
           \<and> to_bson doc = Inr b
           \<and> start_date doc = None \<and> start_date b = None
           \<and> v_start_date (serialize doc) = None))"
proof (intro conjI allI impI)
  show eq: "create_announcement p s now new_id msg e (Some []) teacher_username
     = create_announcement p s now new_id msg e None teacher_username"
    by (simp add: create_announcement_def split: option.splits)
  show "fst (create_announcement p s now new_id msg e (Some []) teacher_username)
       \<noteq> Inl (HTTPException 400 ''Invalid start_date format'')"
  proof (cases "fst (create_announcement p s now new_id msg e (Some []) teacher_username)")
    case (Inr v)
    then show ?thesis by simp
  next
    case (Inl err)
    show ?thesis
    proof (cases "teachers_find_one teacher_username (teachers_collection s)")
      case None
      then show ?thesis by (simp add: create_announcement_def)
    next
      case teacher: (Some a)
      show ?thesis
      proof (cases "parse_date_arg p e")
        case None
        with teacher show ?thesis by (simp add: create_announcement_def)
      next
        case (Some end_dt)
        let ?doc = "\<lparr>doc_id = new_id, message = msg, start_date = None,
                end_date = end_dt, created_by = teacher_username, created_at = now\<rparr>"
        from teacher Some
        have r: "create_announcement p s now new_id msg e (Some []) teacher_username
            = (case insert_one ?doc (announcements_collection s) of
                 Inl err \<Rightarrow> (Inl err, s)
               | Inr coll \<Rightarrow> (Inr (serialize ?doc), s\<lparr>announcements_collection := coll\<rparr>))"
          by (simp add: create_announcement_def Let_def)
        show ?thesis
        proof (cases "insert_one ?doc (announcements_collection s)")
          case bad: (Inl err')
          with insert_one_Inl [OF this] r show ?thesis by auto
        next
          case (Inr coll)
          with r show ?thesis by simp
        qed
      qed
    qed
  qed
next
  fix v s'
  assume "create_announcement p s now new_id msg e (Some []) teacher_username = (Inr v, s')"
  from create_announcement_Inr [OF this] obtain end_dt start_dt b where
    sd: "start_dt = None"
    and b: "to_bson \<lparr>doc_id = new_id, message = msg, start_date = start_dt,
                end_date = end_dt, created_by = teacher_username, created_at = now\<rparr> = Inr b"
    and v: "v = serialize \<lparr>doc_id = new_id, message = msg, start_date = start_dt,
                end_date = end_dt, created_by = teacher_username, created_at = now\<rparr>"
    and s': "s' = s\<lparr>announcements_collection := announcements_collection s @ [b]\<rparr>"
    by auto
  from v sd show "v_start_date v = None" by (simp add: serialize_def)
  from to_bson_Inr(6) [OF b] sd have "start_date b = None" by simp
  with s' show "\<exists>doc. announcements_collection s' = announcements_collection s @ [doc]
                 \<and> start_date doc = None"
    by simp
next
  fix end_dt end_ms
  assume a: "teacher_username \<in> set (teachers_collection s)
          \<and> parse_date_arg p e = Some end_dt
          \<and> datetime_to_millis end_dt = Inr end_ms
          \<and> utcoffset now = None
          \<and> new_id \<notin> doc_id ` set (announcements_collection s)"
  let ?doc = "\<lparr>doc_id = new_id, message = msg, start_date = None,
                end_date = end_dt, created_by = teacher_username, created_at = now\<rparr>"
  let ?b = "\<lparr>doc_id = new_id, message = msg, start_date = None,
                end_date = end_ms, created_by = teacher_username, created_at = utc_millis now\<rparr>"
  from a have "create_announcement p s now new_id msg e (Some []) teacher_username
      = (Inr (serialize ?doc),
         s\<lparr>announcements_collection := announcements_collection s @ [?b]\<rparr>)"
    by (intro create_announcement_ok) simp_all
  moreover from a have "to_bson ?doc = Inr ?b"
    by (simp add: to_bson_ok datetime_to_millis_naive)
  moreover have "start_date ?doc = None \<and> start_date ?b = None
      \<and> v_start_date (serialize ?doc) = None"
    by (simp add: serialize_def)
  ultimately show "\<exists>doc b. create_announcement p s now new_id msg e (Some []) teacher_username
                 = (Inr (serialize doc),
                    s\<lparr>announcements_collection := announcements_collection s @ [b]\<rparr>)
           \<and> to_bson doc = Inr b
           \<and> start_date doc = None \<and> start_date b = None
           \<and> v_start_date (serialize doc) = None"
    by blast
qed

theorem create_empty_start_date_witness:
  "''mchen'' \<in> set (teachers_collection example_db)
   \<and> parse_date_arg fromisoformat_naive ''2099-12-31'' = Some (Datetime 2099 12 31 0 0 0 0 None)
   \<and> datetime_to_millis (Datetime 2099 12 31 0 0 0 0 None) = Inr 4102358400000
   \<and> utcoffset example_now = None
   \<and> Oid ''64b7f0000000000000000003'' \<notin> doc_id ` set (announcements_collection example_db)
   \<and> (\<exists>doc b. create_announcement fromisoformat_naive example_db example_now
               (Oid ''64b7f0000000000000000003'') ''Exam week starts Monday'' ''2099-12-31''
               (Some []) ''mchen''
             = (Inr (serialize doc),
                example_db\<lparr>announcements_collection :=
                  announcements_collection example_db @ [b]\<rparr>)
         \<and> to_bson doc = Inr b
         \<and> start_date doc = None \<and> start_date b = None
         \<and> v_start_date (serialize doc) = None)"
proof -
  have h: "''mchen'' \<in> set (teachers_collection example_db)
     \<and> parse_date_arg fromisoformat_naive ''2099-12-31''
         = Some (Datetime 2099 12 31 0 0 0 0 None)
     \<and> datetime_to_millis (Datetime 2099 12 31 0 0 0 0 None) = Inr 4102358400000
     \<and> utcoffset example_now = None
     \<and> Oid ''64b7f0000000000000000003'' \<notin> doc_id ` set (announcements_collection example_db)"
    by (simp add: example_db_def ann_open_def ann_past_def example_now_def
        parse_date_arg_examples parses_naive_iso_self datetime_to_millis_naive
        utc_millis_examples)
  from create_empty_start_date [of fromisoformat_naive example_db example_now
      "Oid ''64b7f0000000000000000003''" "''Exam week starts Monday''" "''2099-12-31''"
      "''mchen''"] h
  show ?thesis by blast
qed

text \<open>
  C9, as amended. After a successful \<open>create\<close>, \<open>list_all\<close> by any known teacher
  succeeds and its response contains the view of the created record: it has the
  message, the creator and the identifier of the view that \<open>create\<close> returned, and
  its \<open>start_date\<close>, \<open>end_date\<close> and \<open>created_at\<close> are those of the call cut to
  whole milliseconds. The identifier is the one assigned at the insert, which no
  document had before, and no other view of the response carries it.
\<close>

theorem create_then_list_all:
  assumes created: "create_announcement p s now new_id msg e sd teacher_username = (Inr v, s')"
    and reader: "reader \<in> set (teachers_collection s')"
  shows "\<exists>vs doc w.
           get_all_announcements s' reader = Inr vs
         \<and> doc \<in> set (announcements_collection s') \<and> w = serialize (from_bson doc)
         \<and> w \<in> set vs
         \<and> v_id w = v_id v \<and> v_id v = str new_id
         \<and> v_message w = v_message v \<and> v_message v = msg
         \<and> v_created_by w = v_created_by v \<and> v_created_by v = teacher_username
         \<and> created_at doc = utc_millis now
         \<and> v_created_at v = Some (isoformat now)
         \<and> v_created_at w = Some (isoformat (millis_to_datetime (utc_millis now)))
         \<and> (\<exists>t. parse_date_arg p e = Some t \<and> end_date doc = utc_millis t
               \<and> v_end_date v = Some (isoformat t)
               \<and> v_end_date w = Some (isoformat (millis_to_datetime (utc_millis t))))
         \<and> (\<exists>st. st = (case sd of None \<Rightarrow> None
                           | Some x \<Rightarrow> if x = [] then None else parse_date_arg p x)
               \<and> start_date doc = map_option utc_millis st
               \<and> v_start_date v = map_option isoformat st
               \<and> v_start_date w
                   = map_option (\<lambda>t. isoformat (millis_to_datetime (utc_millis t))) st)
         \<and> new_id \<notin> doc_id ` set (announcements_collection s)
         \<and> (\<forall>x \<in> set vs. v_id x = v_id w \<longrightarrow> x = w)"
proof -
  from create_announcement_Inr [OF created] obtain end_dt start_dt b where
    e: "parse_date_arg p e = Some end_dt"
    and sd: "start_dt = (case sd of None \<Rightarrow> None
                        | Some x \<Rightarrow> if x = [] then None else parse_date_arg p x)"
    and b: "to_bson \<lparr>doc_id = new_id, message = msg, start_date = start_dt,
                end_date = end_dt, created_by = teacher_username, created_at = now\<rparr> = Inr b"
    and fresh: "new_id \<notin> doc_id ` set (announcements_collection s)"
    and v: "v = serialize \<lparr>doc_id = new_id, message = msg, start_date = start_dt,
                end_date = end_dt, created_by = teacher_username, created_at = now\<rparr>"
    and s': "s' = s\<lparr>announcements_collection := announcements_collection s @ [b]\<rparr>"
    by blast
  let ?w = "serialize (from_bson b)"
  let ?vs = "map (\<lambda>doc. serialize (from_bson doc))
      (find_sort_end_date (And []) (announcements_collection s'))"
  note bf = to_bson_Inr [OF b]
  have b_id: "doc_id b = new_id" and b_msg: "message b = msg"
    and b_by: "created_by b = teacher_username"
    using bf(1,2,3) by simp_all
  have b_end: "end_date b = utc_millis end_dt"
    using bf(4) by (auto dest: datetime_to_millis_Inr)
  have b_at: "created_at b = utc_millis now"
    using bf(5) by (auto dest: datetime_to_millis_Inr)
  have b_start: "start_date b = map_option utc_millis start_dt"
    using bf(6) by (cases start_dt) (auto dest: datetime_to_millis_Inr)
  have coll: "announcements_collection s' = announcements_collection s @ [b]"
    using s' by simp
  have all: "get_all_announcements s' reader = Inr ?vs"
    using teachers_find_one_Some [OF reader] by (simp add: get_all_announcements_def)
  have docs: "set (find_sort_end_date (And []) (announcements_collection s'))
      = set (announcements_collection s')"
    by (simp add: set_find_sort_end_date)
  have mem: "b \<in> set (announcements_collection s')"
    using coll by simp
  then have wmem: "?w \<in> set ?vs"
    using docs by simp
  have uniq: "\<forall>x \<in> set ?vs. v_id x = v_id ?w \<longrightarrow> x = ?w"
  proof (intro ballI impI)
    fix x
    assume "x \<in> set ?vs" and same: "v_id x = v_id ?w"
    then obtain c where c: "c \<in> set (announcements_collection s')"
      and x: "x = serialize (from_bson c)"
      using docs by auto
    from same x have "str (doc_id c) = str (doc_id b)"
      by (simp add: serialize_def from_bson_def)
    then have "doc_id c = new_id" using b_id by (auto dest: str_inject)
    with fresh c coll have "c = b" by auto
    with x show "x = ?w" by simp
  qed
  have vf: "v_id v = str new_id \<and> v_message v = msg \<and> v_created_by v = teacher_username
      \<and> v_created_at v = Some (isoformat now) \<and> v_end_date v = Some (isoformat end_dt)
      \<and> v_start_date v = map_option isoformat start_dt"
    using v by (simp add: serialize_def split: option.splits)
  have wf: "v_id ?w = str new_id \<and> v_message ?w = msg \<and> v_created_by ?w = teacher_username
      \<and> v_created_at ?w = Some (isoformat (millis_to_datetime (utc_millis now)))
      \<and> v_end_date ?w = Some (isoformat (millis_to_datetime (utc_millis end_dt)))
      \<and> v_start_date ?w
          = map_option (\<lambda>t. isoformat (millis_to_datetime (utc_millis t))) start_dt"
    using b_id b_msg b_by b_at b_end b_start
    by (cases start_dt) (simp_all add: serialize_def from_bson_def)
  show ?thesis
    using all mem wmem vf wf b_at b_end b_start e sd fresh uniq
    by (intro exI [of _ ?vs] exI [of _ b] exI [of _ ?w]) auto
qed

theorem create_then_list_all_witness:
  "create_announcement fromisoformat_naive example_db example_now
       (Oid ''64b7f0000000000000000003'') ''Exam week starts Monday'' ''2099-12-31'' None
       ''mchen''
     = (Inr (serialize doc_new),
        example_db\<lparr>announcements_collection := [ann_open, ann_past, ann_new]\<rparr>)
   \<and> ''mrodriguez'' \<in> set (teachers_collection
         (example_db\<lparr>announcements_collection := [ann_open, ann_past, ann_new]\<rparr>))
   \<and> (\<exists>vs w. get_all_announcements
               (example_db\<lparr>announcements_collection := [ann_open, ann_past, ann_new]\<rparr>)
               ''mrodriguez'' = Inr vs
         \<and> w \<in> set vs
         \<and> v_id w = ''64b7f0000000000000000003''
         \<and> v_message w = ''Exam week starts Monday''
         \<and> v_created_by w = ''mchen''
         \<and> v_created_at w = Some (isoformat (millis_to_datetime (utc_millis example_now)))
         \<and> v_start_date w = None)"
proof -
  have r: "''mrodriguez'' \<in> set (teachers_collection
         (example_db\<lparr>announcements_collection := [ann_open, ann_past, ann_new]\<rparr>))"
    by (simp add: example_db_def)
  from create_then_list_all [OF create_example r]
  obtain vs doc w where
    "w = serialize (from_bson doc)"
    "get_all_announcements
        (example_db\<lparr>announcements_collection := [ann_open, ann_past, ann_new]\<rparr>)
        ''mrodriguez'' = Inr vs"
    "w \<in> set vs" "v_id w = str (Oid ''64b7f0000000000000000003'')"
    "v_message w = ''Exam week starts Monday''" "v_created_by w = ''mchen''"
    "v_created_at w = Some (isoformat (millis_to_datetime (utc_millis example_now)))"
    "v_start_date w = None"
    by auto
  with create_example r show ?thesis by auto
qed

text \<open>
  C9 as stated fails: when the clock has a microsecond part, the \<open>created_at\<close> that
  \<open>create\<close> returned is not the one \<open>list_all\<close> shows, so the returned view is not
  in the response of \<open>list_all\<close>.
\<close>

theorem create_then_list_all_counterexample:
  "create_announcement fromisoformat_naive example_db now_micro
       (Oid ''64b7f0000000000000000003'') ''Exam week starts Monday'' ''2099-12-31'' None
       ''mchen''
     = (Inr (serialize doc_micro),
        example_db\<lparr>announcements_collection := [ann_open, ann_past, ann_micro]\<rparr>)
   \<and> get_all_announcements
         (example_db\<lparr>announcements_collection := [ann_open, ann_past, ann_micro]\<rparr>)
         ''mrodriguez''
       = Inr [serialize (from_bson ann_past), serialize (from_bson ann_open),
              serialize (from_bson ann_micro)]
   \<and> v_created_at (serialize doc_micro) = Some ''2025-03-01T12:00:00.123456''
   \<and> v_created_at (serialize (from_bson ann_micro)) = Some ''2025-03-01T12:00:00.123000''
   \<and> serialize doc_micro \<notin> set [serialize (from_bson ann_past), serialize (from_bson ann_open),
              serialize (from_bson ann_micro)]"
proof -
  have all: "get_all_announcements
         (example_db\<lparr>announcements_collection := [ann_open, ann_past, ann_micro]\<rparr>)
         ''mrodriguez''
       = Inr [serialize (from_bson ann_past), serialize (from_bson ann_open),
              serialize (from_bson ann_micro)]"
    by (simp add: get_all_announcements_def teachers_find_one_def find_sort_end_date_def
        example_db_def ann_open_def ann_past_def ann_micro_def)
  have c1: "v_created_at (serialize doc_micro) = Some ''2025-03-01T12:00:00.123456''"
    by (simp add: serialize_def doc_micro_def now_micro_def isoformat_defs)
  have c2: "v_created_at (serialize (from_bson ann_micro)) = Some ''2025-03-01T12:00:00.123000''"
    by (simp add: serialize_def from_bson_def ann_micro_def millis_to_datetime_examples
        isoformat_defs)
  have i1: "v_id (serialize doc_micro) \<noteq> v_id (serialize (from_bson ann_past))"
    and i2: "v_id (serialize doc_micro) \<noteq> v_id (serialize (from_bson ann_open))"
    by (simp_all add: serialize_def from_bson_def doc_micro_def ann_past_def ann_open_def)
  from c1 c2 have n3: "serialize doc_micro \<noteq> serialize (from_bson ann_micro)"
    by auto
  from i1 i2 have "serialize doc_micro \<noteq> serialize (from_bson ann_past)
      \<and> serialize doc_micro \<noteq> serialize (from_bson ann_open)"
    by auto
  with n3 create_micro_example all c1 c2 show ?thesis by simp
qed

subsection \<open>Updating and deleting\<close>

text \<open>
  C4, as amended. For a known teacher, \<open>update\<close> and \<open>delete\<close> fail with 400
  "Invalid announcement id" on a malformed id, whatever the collection and the other
  arguments are. On a well-formed id, \<open>update\<close> fails with 400 when no field is given
  or a given date does not parse, whether or not a document has the id. On a
  well-formed id that no document has, \<open>delete\<close> fails with 404, and \<open>update\<close> fails
  with 404 when at least one of the three fields is given and every date given parses
  to a date the store can encode. The database is unchanged in each case.
\<close>

theorem update_delete_id_checks:
  assumes teacher: "teacher_username \<in> set (teachers_collection s)"
  shows "(ObjectId announcement_id = None \<longrightarrow>
            update_announcement p s announcement_id m e sd teacher_username
              = (Inl (HTTPException 400 ''Invalid announcement id''), s)
          \<and> delete_announcement s announcement_id teacher_username
              = (Inl (HTTPException 400 ''Invalid announcement id''), s))
       \<and> (\<forall>oid. ObjectId announcement_id = Some oid \<longrightarrow>
            (m = None \<and> e = None \<and> sd = None \<longrightarrow>
               update_announcement p s announcement_id m e sd teacher_username
                 = (Inl (HTTPException 400 ''No fields to update''), s))
          \<and> (\<forall>x. e = Some x \<and> parse_date_arg p x = None \<longrightarrow>
               update_announcement p s announcement_id m e sd teacher_username
                 = (Inl (HTTPException 400 ''Invalid end_date format''), s))
          \<and> (\<forall>x. sd = Some x \<and> x \<noteq> [] \<and> parse_date_arg p x = None
                 \<and> (\<forall>y. e = Some y \<longrightarrow> parse_date_arg p y \<noteq> None) \<longrightarrow>
               update_announcement p s announcement_id m e sd teacher_username
                 = (Inl (HTTPException 400 ''Invalid start_date format''), s))
          \<and> (oid \<notin> doc_id ` set (announcements_collection s) \<longrightarrow>
               delete_announcement s announcement_id teacher_username
                 = (Inl (HTTPException 404 ''Announcement not found''), s)
             \<and> ((m \<noteq> None \<or> e \<noteq> None \<or> sd \<noteq> None)
                   \<and> (\<forall>x. e = Some x \<longrightarrow>
                         (\<exists>t ms. parse_date_arg p x = Some t \<and> datetime_to_millis t = Inr ms))
                   \<and> (\<forall>x. sd = Some x \<longrightarrow> x \<noteq> [] \<longrightarrow>
                         (\<exists>t ms. parse_date_arg p x = Some t \<and> datetime_to_millis t = Inr ms))
                 \<longrightarrow>
                 update_announcement p s announcement_id m e sd teacher_username
                   = (Inl (HTTPException 404 ''Announcement not found''), s))))"
proof -
  have f: "teachers_find_one teacher_username (teachers_collection s) = Some teacher_username"
    using teacher by (rule teachers_find_one_Some)
  show ?thesis
  proof (intro conjI allI impI)
    assume "ObjectId announcement_id = None"
    then show "update_announcement p s announcement_id m e sd teacher_username
              = (Inl (HTTPException 400 ''Invalid announcement id''), s)"
      using f by (simp add: update_announcement_def)
  next
    assume "ObjectId announcement_id = None"
    then show "delete_announcement s announcement_id teacher_username
              = (Inl (HTTPException 400 ''Invalid announcement id''), s)"
      using f by (simp add: delete_announcement_def)
  next
    fix oid
    assume "ObjectId announcement_id = Some oid" and "m = None \<and> e = None \<and> sd = None"
    then show "update_announcement p s announcement_id m e sd teacher_username
                 = (Inl (HTTPException 400 ''No fields to update''), s)"
      using f by (simp add: update_announcement_def update_no_fields_built)
  next
    fix oid x
    assume "ObjectId announcement_id = Some oid" and "e = Some x \<and> parse_date_arg p x = None"
    then show "update_announcement p s announcement_id m e sd teacher_username
                 = (Inl (HTTPException 400 ''Invalid end_date format''), s)"
      using f by (simp add: update_announcement_def update_end_date_def)
  next
    fix oid x
    assume oid: "ObjectId announcement_id = Some oid"
      and a: "sd = Some x \<and> x \<noteq> [] \<and> parse_date_arg p x = None
                 \<and> (\<forall>y. e = Some y \<longrightarrow> parse_date_arg p y \<noteq> None)"
    then obtain u1 where u1: "update_end_date p e (update_message m empty_update) = Inr u1"
      by (cases e) (auto simp add: update_end_date_def)
    from a have "update_start_date p sd u1
        = Inl (HTTPException 400 ''Invalid start_date format'')"
      by (simp add: update_start_date_def)
    with oid u1 show "update_announcement p s announcement_id m e sd teacher_username
                 = (Inl (HTTPException 400 ''Invalid start_date format''), s)"
      using f by (simp add: update_announcement_def)
  next
    fix oid
    assume oid: "ObjectId announcement_id = Some oid"
      and a: "oid \<notin> doc_id ` set (announcements_collection s)"
    then have "delete_one (Field ''_id'' (Eq (BObjectId oid))) (announcements_collection s)
        = (0, announcements_collection s)"
      by (intro delete_one_no_match no_doc_no_match)
    with oid show "delete_announcement s announcement_id teacher_username
              = (Inl (HTTPException 404 ''Announcement not found''), s)"
      using f by (simp add: delete_announcement_def)
  next
    fix oid
    assume oid: "ObjectId announcement_id = Some oid"
      and a: "oid \<notin> doc_id ` set (announcements_collection s)"
      and b: "(m \<noteq> None \<or> e \<noteq> None \<or> sd \<noteq> None)
                   \<and> (\<forall>x. e = Some x \<longrightarrow>
                         (\<exists>t ms. parse_date_arg p x = Some t \<and> datetime_to_millis t = Inr ms))
                   \<and> (\<forall>x. sd = Some x \<longrightarrow> x \<noteq> [] \<longrightarrow>
                         (\<exists>t ms. parse_date_arg p x = Some t \<and> datetime_to_millis t = Inr ms))"
    from b obtain u1 u su where
      u1: "update_end_date p e (update_message m empty_update) = Inr u1"
      and u: "update_start_date p sd u1 = Inr u"
      and su: "encode_update u = Inr su"
      using update_doc_parses [of e p sd m] by blast
    from b have ne: "u \<noteq> empty_update"
      using update_doc_built(2) [OF u1 u] by simp
    from a have "update_one (Field ''_id'' (Eq (BObjectId oid))) su (announcements_collection s)
        = (0, announcements_collection s)"
      by (intro update_one_no_match no_doc_no_match)
    with oid u1 u su ne show "update_announcement p s announcement_id m e sd teacher_username
                = (Inl (HTTPException 404 ''Announcement not found''), s)"
      using f by (simp add: update_announcement_def)
  qed
qed

theorem update_delete_id_checks_witness:
  "''mchen'' \<in> set (teachers_collection example_db)
   \<and> ObjectId ''not-an-id'' = None
   \<and> update_announcement fromisoformat_naive example_db ''not-an-id'' (Some ''Holiday'')
        None None ''mchen''
       = (Inl (HTTPException 400 ''Invalid announcement id''), example_db)
   \<and> delete_announcement example_db ''not-an-id'' ''mchen''
       = (Inl (HTTPException 400 ''Invalid announcement id''), example_db)
   \<and> ObjectId ''64b7f000000000000000 01 '' = Some (Oid ''64b7f00000000000000001'')
   \<and> Oid ''64b7f00000000000000001'' \<notin> doc_id ` set (announcements_collection example_db)
   \<and> delete_announcement example_db ''64b7f000000000000000 01 '' ''mchen''
       = (Inl (HTTPException 404 ''Announcement not found''), example_db)
   \<and> update_announcement fromisoformat_naive example_db ''64b7f000000000000000 01 ''
        (Some ''Holiday'') None None ''mchen''
       = (Inl (HTTPException 404 ''Announcement not found''), example_db)
   \<and> ObjectId ''64b7f0000000000000000002'' = Some (Oid ''64b7f0000000000000000002'')
   \<and> parse_date_arg fromisoformat_naive ''next week'' = None
   \<and> update_announcement fromisoformat_naive example_db ''64b7f0000000000000000002''
        (Some ''Holiday'') (Some ''next week'') None ''mchen''
       = (Inl (HTTPException 400 ''Invalid end_date format''), example_db)
   \<and> update_announcement fromisoformat_naive example_db ''64b7f0000000000000000002''
        (Some ''Holiday'') None (Some ''next week'') ''mchen''
       = (Inl (HTTPException 400 ''Invalid start_date format''), example_db)"
proof -
  have t: "''mchen'' \<in> set (teachers_collection example_db)"
    by (simp add: example_db_def)
  have n: "Oid ''64b7f00000000000000001'' \<notin> doc_id ` set (announcements_collection example_db)"
    by (simp add: example_db_def ann_open_def ann_past_def)
  have bad: "parse_date_arg fromisoformat_naive ''next week'' = None"
    by (simp add: parse_date_arg_def fromisoformat_naive_def parse_isoformat_date_def
        parse_digits_def digit_val_def)
  note a = update_delete_id_checks [OF t, of "''not-an-id''" fromisoformat_naive
      "Some ''Holiday''" None None]
  note b = update_delete_id_checks [OF t, of "''64b7f000000000000000 01 ''" fromisoformat_naive
      "Some ''Holiday''" None None]
  note c = update_delete_id_checks [OF t, of "''64b7f0000000000000000002''" fromisoformat_naive
      "Some ''Holiday''" "Some ''next week''" None]
  note d = update_delete_id_checks [OF t, of "''64b7f0000000000000000002''" fromisoformat_naive
      "Some ''Holiday''" None "Some ''next week''"]
  from a ObjectId_examples(4) have 1:
    "update_announcement fromisoformat_naive example_db ''not-an-id'' (Some ''Holiday'')
        None None ''mchen''
       = (Inl (HTTPException 400 ''Invalid announcement id''), example_db)
     \<and> delete_announcement example_db ''not-an-id'' ''mchen''
       = (Inl (HTTPException 400 ''Invalid announcement id''), example_db)"
    by blast
  from b ObjectId_examples(3) n have 2:
    "delete_announcement example_db ''64b7f000000000000000 01 '' ''mchen''
       = (Inl (HTTPException 404 ''Announcement not found''), example_db)
     \<and> update_announcement fromisoformat_naive example_db ''64b7f000000000000000 01 ''
        (Some ''Holiday'') None None ''mchen''
       = (Inl (HTTPException 404 ''Announcement not found''), example_db)"
    by simp
  from c ObjectId_examples(1) bad have 3:
    "update_announcement fromisoformat_naive example_db ''64b7f0000000000000000002''
        (Some ''Holiday'') (Some ''next week'') None ''mchen''
       = (Inl (HTTPException 400 ''Invalid end_date format''), example_db)"
    by simp
  from d ObjectId_examples(1) bad have 4:
    "update_announcement fromisoformat_naive example_db ''64b7f0000000000000000002''
        (Some ''Holiday'') None (Some ''next week'') ''mchen''
       = (Inl (HTTPException 400 ''Invalid start_date format''), example_db)"
    by simp
  from 1 2 3 4 t n bad ObjectId_examples show ?thesis by simp
qed

text \<open>
  C4 as stated fails: an \<open>update\<close> by a known teacher with a well-formed id that no
  document has and with none of the three fields fails with 400 "No fields to update",
  not with 404.
\<close>

theorem update_not_found_counterexample:
  "''mchen'' \<in> set (teachers_collection example_db)
   \<and> ObjectId ''64b7f00000000000000000ff'' = Some (Oid ''64b7f00000000000000000ff'')
   \<and> find_one (Field ''_id'' (Eq (BObjectId (Oid ''64b7f00000000000000000ff''))))
        (announcements_collection example_db) = None
   \<and> update_announcement fromisoformat_naive example_db ''64b7f00000000000000000ff''
        None None None ''mchen''
       = (Inl (HTTPException 400 ''No fields to update''), example_db)
   \<and> fst (update_announcement fromisoformat_naive example_db ''64b7f00000000000000000ff''
        None None None ''mchen'')
       \<noteq> Inl (HTTPException 404 ''Announcement not found'')"
  by (simp add: update_announcement_def teachers_find_one_def ObjectId_examples
      update_no_fields_built find_one_def doc_get_def example_db_def ann_open_def ann_past_def)

text \<open>
  C5. An \<open>update\<close> by a known teacher with a well-formed id and none of \<open>message\<close>,
  \<open>end_date\<close>, \<open>start_date\<close> fails with 400 "No fields to update" and leaves the
  database as it was.
\<close>

theorem update_no_fields:
  assumes "teacher_username \<in> set (teachers_collection s)"
    and "ObjectId announcement_id = Some oid"
  shows "update_announcement p s announcement_id None None None teacher_username
           = (Inl (HTTPException 400 ''No fields to update''), s)"
  using assms
  by (simp add: update_announcement_def teachers_find_one_Some update_no_fields_built)

theorem update_no_fields_witness:
  "''mchen'' \<in> set (teachers_collection example_db)
   \<and> ObjectId ''64b7f0000000000000000002'' = Some (Oid ''64b7f0000000000000000002'')
   \<and> update_announcement fromisoformat_naive example_db ''64b7f0000000000000000002''
        None None None ''mchen''
       = (Inl (HTTPException 400 ''No fields to update''), example_db)"
proof -
  have t: "''mchen'' \<in> set (teachers_collection example_db)"
    by (simp add: example_db_def)
  from update_no_fields [OF t ObjectId_examples(1)] t ObjectId_examples(1)
  show ?thesis by blast
qed

text \<open>
  C6. An \<open>update\<close> by a known teacher of an existing document with the empty string
  as \<open>start_date\<close> and no other field succeeds; the document's \<open>start_date\<close>
  becomes null, its other fields keep their values and the other documents stay as
  they were.
\<close>

theorem update_clear_start_date:
  assumes teacher: "teacher_username \<in> set (teachers_collection s)"
    and oid: "ObjectId announcement_id = Some oid"
    and found: "find_one (Field ''_id'' (Eq (BObjectId oid))) (announcements_collection s) = Some d"
  shows "\<exists>pre post.
           announcements_collection s = pre @ d # post
         \<and> (\<forall>x \<in> set pre. doc_id x \<noteq> oid) \<and> doc_id d = oid
         \<and> update_announcement p s announcement_id None None (Some []) teacher_username
             = (Inr (serialize (from_bson (d\<lparr>start_date := None\<rparr>))),
                s\<lparr>announcements_collection := pre @ d\<lparr>start_date := None\<rparr> # post\<rparr>)
         \<and> start_date (d\<lparr>start_date := None\<rparr>) = None
         \<and> message (d\<lparr>start_date := None\<rparr>) = message d
         \<and> end_date (d\<lparr>start_date := None\<rparr>) = end_date d
         \<and> created_by (d\<lparr>start_date := None\<rparr>) = created_by d
         \<and> created_at (d\<lparr>start_date := None\<rparr>) = created_at d
         \<and> doc_id (d\<lparr>start_date := None\<rparr>) = doc_id d"
proof -
  from update_announcement_found [OF teacher oid found update_no_fields_built(1) [of p]
      update_clear_start_built(1) [of p] update_clear_start_built(2)
      update_clear_start_built(3)]
  obtain pre post where
    "announcements_collection s = pre @ d # post"
    "\<forall>x \<in> set pre. doc_id x \<noteq> oid" "doc_id d = oid"
    "update_announcement p s announcement_id None None (Some []) teacher_username
       = (Inr (serialize (from_bson (d\<lparr>start_date := None\<rparr>))),
          s\<lparr>announcements_collection := pre @ d\<lparr>start_date := None\<rparr> # post\<rparr>)"
    by (auto simp add: update_clear_start_built(4))
  then show ?thesis
    by (intro exI [of _ pre] exI [of _ post]) simp
qed

theorem update_clear_start_date_witness:
  "''mrodriguez'' \<in> set (teachers_collection example_db)
   \<and> ObjectId ''64b7f0000000000000000002'' = Some (Oid ''64b7f0000000000000000002'')
   \<and> find_one (Field ''_id'' (Eq (BObjectId (Oid ''64b7f0000000000000000002''))))
        (announcements_collection example_db) = Some ann_past
   \<and> start_date ann_past = Some 1577836800000
   \<and> update_announcement fromisoformat_naive example_db ''64b7f0000000000000000002''
        None None (Some []) ''mrodriguez''
       = (Inr (serialize (from_bson (ann_past\<lparr>start_date := None\<rparr>))),
          example_db\<lparr>announcements_collection := [ann_open, ann_past\<lparr>start_date := None\<rparr>]\<rparr>)"
proof -
  have t: "''mrodriguez'' \<in> set (teachers_collection example_db)"
    by (simp add: example_db_def)
  have f: "find_one (Field ''_id'' (Eq (BObjectId (Oid ''64b7f0000000000000000002''))))
        (announcements_collection example_db) = Some ann_past"
    by (simp add: find_one_def doc_get_def example_db_def ann_open_def ann_past_def)
  from update_clear_start_date [OF t ObjectId_examples(1) f, of fromisoformat_naive]
  obtain pre post where
    p: "announcements_collection example_db = pre @ ann_past # post"
    and q: "\<forall>x \<in> set pre. doc_id x \<noteq> Oid ''64b7f0000000000000000002''"
    and r: "update_announcement fromisoformat_naive example_db ''64b7f0000000000000000002''
        None None (Some []) ''mrodriguez''
       = (Inr (serialize (from_bson (ann_past\<lparr>start_date := None\<rparr>))),
          example_db\<lparr>announcements_collection := pre @ ann_past\<lparr>start_date := None\<rparr> # post\<rparr>)"
    by blast
  from p have "pre @ ann_past # post = [ann_open, ann_past]"
    by (simp add: example_db_def)
  then have "pre = [ann_open] \<and> post = []"
    using q by (cases pre; cases "tl pre") (auto simp add: ann_open_def ann_past_def)
  with r have "update_announcement fromisoformat_naive example_db ''64b7f0000000000000000002''
        None None (Some []) ''mrodriguez''
       = (Inr (serialize (from_bson (ann_past\<lparr>start_date := None\<rparr>))),
          example_db\<lparr>announcements_collection := [ann_open, ann_past\<lparr>start_date := None\<rparr>]\<rparr>)"
    by simp
  moreover have "start_date ann_past = Some 1577836800000" by (simp add: ann_past_def)
  ultimately show ?thesis using t f ObjectId_examples(1) by blast
qed




end
